theory Spec2Isabelle
  imports Complex_Main "HOL-Library.Signed_Division" "HOL-Library.Word"
begin

section \<open>JavaScript values as the program sees them at run time\<close>

text \<open>
  The ingestion code of Journey Weaver works on untyped values that come out of
  \<^verbatim>\<open>JSON.parse\<close>, a dataset row or the browser store. The TypeScript types are
  erased at run time, so the model works on the run-time values.

  A string is the list of its UTF-16 code units, as JavaScript has it; \<open>lit\<close> writes a
  string literal of the source. Numbers are finite values, NaN and the two infinities;
  the rounding of doubles and the sign of zero play no role in the code modelled here.
  An object is the list of its own properties in the order \<^verbatim>\<open>Object.keys\<close> lists
  them, each key once. \<open>JProto\<close> is an object whose prototype has been replaced, by an
  assignment to \<^verbatim>\<open>__proto__\<close>, with the value it carries (an object, or
  \<^verbatim>\<open>null\<close>); every other object has the prototype it was created with. A
  \<^verbatim>\<open>Date\<close> carries its time value.
\<close>

type_synonym jsstring = "16 word list"

definition lit :: "string \<Rightarrow> jsstring" where
  "lit s = map of_char s"

datatype number = Fin rat | NaN | PosInf | NegInf

datatype jsvalue =
    JUndefined
  | JNull
  | JBool bool
  | JNum number
  | JStr jsstring
  | JArr "jsvalue list"
  | JObj "(jsstring \<times> jsvalue) list"
  | JProto "(jsstring \<times> jsvalue) list" jsvalue
  | JDate number

text \<open>A thrown exception is a value: \<open>Inl\<close> of the sum type carries it.\<close>

datatype error = TypeError | SyntaxError | Error string

text \<open>
  What the platform supplies and the repository does not define: the conversions
  between numbers and strings, the JSON codec, \<^verbatim>\<open>parseInt\<close>, the string form of a
  date, the case mappings of Unicode on strings that are not all ASCII, and the
  conversion to a string or a number of an object whose prototype has been replaced.
  \<open>JSON_parse\<close> is \<open>None\<close> where \<^verbatim>\<open>JSON.parse\<close> throws a SyntaxError.
\<close>

record platform =
  str_to_num :: "jsstring \<Rightarrow> number"
  num_to_str :: "number \<Rightarrow> jsstring"
  date_to_str :: "number \<Rightarrow> jsstring"
  JSON_parse :: "jsstring \<Rightarrow> jsvalue option"
  JSON_stringify :: "jsvalue \<Rightarrow> jsstring"
  parseInt :: "jsstring \<Rightarrow> number"
  unicode_lower :: "jsstring \<Rightarrow> jsstring"
  unicode_upper :: "jsstring \<Rightarrow> jsstring"
  proto_to_string :: "jsvalue \<Rightarrow> error + jsstring"
  proto_to_number :: "jsvalue \<Rightarrow> error + number"

subsection \<open>Operators\<close>

definition isFinite :: "number \<Rightarrow> bool" where
  "isFinite n = (case n of Fin _ \<Rightarrow> True | _ \<Rightarrow> False)"

text \<open>Truthiness: \<^verbatim>\<open>undefined\<close>, \<^verbatim>\<open>null\<close>, \<^verbatim>\<open>false\<close>, \<^verbatim>\<open>0\<close>, \<^verbatim>\<open>NaN\<close> and \<^verbatim>\<open>""\<close> are falsy.\<close>

fun truthy :: "jsvalue \<Rightarrow> bool" where
  "truthy JUndefined = False"
| "truthy JNull = False"
| "truthy (JBool b) = b"
| "truthy (JNum n) = (n \<noteq> Fin 0 \<and> n \<noteq> NaN)"
| "truthy (JStr s) = (s \<noteq> [])"
| "truthy (JArr _) = True"
| "truthy (JObj _) = True"
| "truthy (JProto _ _) = True"
| "truthy (JDate _) = True"

text \<open>\<^verbatim>\<open>a || b\<close>\<close>

definition or_else :: "jsvalue \<Rightarrow> jsvalue \<Rightarrow> jsvalue" where
  "or_else a b = (if truthy a then a else b)"

text \<open>\<^verbatim>\<open>typeof v\<close>, one of the fixed names of the language.\<close>

fun typeof :: "jsvalue \<Rightarrow> string" where
  "typeof JUndefined = ''undefined''"
| "typeof JNull = ''object''"
| "typeof (JBool _) = ''boolean''"
| "typeof (JNum _) = ''number''"
| "typeof (JStr _) = ''string''"
| "typeof (JArr _) = ''object''"
| "typeof (JObj _) = ''object''"
| "typeof (JProto _ _) = ''object''"
| "typeof (JDate _) = ''object''"

fun isArray :: "jsvalue \<Rightarrow> bool" where
  "isArray (JArr _) = True"
| "isArray _ = False"

fun elems :: "jsvalue \<Rightarrow> jsvalue list" where
  "elems (JArr xs) = xs"
| "elems _ = []"

text \<open>
  \<^verbatim>\<open>a === b\<close>. NaN differs from itself. Arrays and objects are compared by identity:
  every comparison in this program has a literal or a value of another parse on one
  side, so two of them are never the same object.
\<close>

fun strict_eq :: "jsvalue \<Rightarrow> jsvalue \<Rightarrow> bool" where
  "strict_eq JUndefined JUndefined = True"
| "strict_eq JNull JNull = True"
| "strict_eq (JBool a) (JBool b) = (a = b)"
| "strict_eq (JNum a) (JNum b) = (a = b \<and> a \<noteq> NaN)"
| "strict_eq (JStr a) (JStr b) = (a = b)"
| "strict_eq _ _ = False"

text \<open>
  Reading a property \<^verbatim>\<open>v.k\<close>, where \<open>k\<close> is a name written in the source. On
  \<^verbatim>\<open>undefined\<close> and \<^verbatim>\<open>null\<close> it throws a TypeError. The names this program reads
  are data fields and \<^verbatim>\<open>length\<close>; none of them is inherited from a built-in
  prototype, so a value without the own property gives \<^verbatim>\<open>undefined\<close>, unless its
  prototype has been replaced: then the prototype is asked.
\<close>

fun own :: "(jsstring \<times> jsvalue) list \<Rightarrow> jsstring \<Rightarrow> jsvalue" where
  "own [] k = JUndefined"
| "own ((k', v) # kvs) k = (if k' = k then v else own kvs k)"

definition has_own :: "(jsstring \<times> jsvalue) list \<Rightarrow> string \<Rightarrow> bool" where
  "has_own kvs k = (lit k \<in> set (map fst kvs))"

fun read_prop :: "jsvalue \<Rightarrow> string \<Rightarrow> jsvalue" where
  "read_prop (JObj kvs) k = own kvs (lit k)"
| "read_prop (JProto kvs p) k = (if has_own kvs k then own kvs (lit k) else read_prop p k)"
| "read_prop (JArr xs) k = (if k = ''length'' then JNum (Fin (of_nat (length xs))) else JUndefined)"
| "read_prop (JStr s) k = (if k = ''length'' then JNum (Fin (of_nat (length s))) else JUndefined)"
| "read_prop _ k = JUndefined"

definition get :: "jsvalue \<Rightarrow> string \<Rightarrow> error + jsvalue" where
  "get v k = (if v = JUndefined \<or> v = JNull then Inl TypeError else Inr (read_prop v k))"

text \<open>
  \<^verbatim>\<open>Array.prototype.map\<close> with a callback that may throw: the first exception, in the
  order of the elements, leaves the loop.
\<close>

fun sequence :: "(error + 'a) list \<Rightarrow> error + 'a list" where
  "sequence [] = Inr []"
| "sequence (r # rs) =
     (case r of
        Inl e \<Rightarrow> Inl e
      | Inr v \<Rightarrow> (case sequence rs of Inl e \<Rightarrow> Inl e | Inr vs \<Rightarrow> Inr (v # vs)))"

text \<open>\<^verbatim>\<open>.filter(x => x !== null)\<close> on the results of a callback that returns a value or \<^verbatim>\<open>null\<close>.\<close>

fun somes :: "'a option list \<Rightarrow> 'a list" where
  "somes [] = []"
| "somes (None # xs) = somes xs"
| "somes (Some x # xs) = x # somes xs"

text \<open>The elements of an array with their indices, as \<^verbatim>\<open>map((item, index) => ...)\<close> sees them.\<close>

definition indexed :: "'a list \<Rightarrow> ('a \<times> nat) list" where
  "indexed xs = zip xs [0 ..< length xs]"

subsection \<open>Strings\<close>

text \<open>
  \<^verbatim>\<open>String.prototype.trim\<close> removes, at both ends, the white space and the line
  terminators of the language: TAB, VT, FF, the byte order mark, the space separators
  of Unicode, and LF, CR, LS, PS.
\<close>

definition is_space :: "16 word \<Rightarrow> bool" where
  "is_space c =
     (c \<in> set [0x0009, 0x000A, 0x000B, 0x000C, 0x000D, 0x0020, 0x00A0, 0x1680,
                0x2000, 0x2001, 0x2002, 0x2003, 0x2004, 0x2005, 0x2006, 0x2007,
                0x2008, 0x2009, 0x200A, 0x2028, 0x2029, 0x202F, 0x205F, 0x3000, 0xFEFF])"

definition trim :: "jsstring \<Rightarrow> jsstring" where
  "trim s = rev (dropWhile is_space (rev (dropWhile is_space s)))"

text \<open>
  \<^verbatim>\<open>toLowerCase\<close> and \<^verbatim>\<open>toUpperCase\<close>. On a string of ASCII code units they map the
  letters A to Z and a to z; on every other string the mapping is that of Unicode,
  which the platform supplies.
\<close>

definition is_ascii :: "16 word \<Rightarrow> bool" where
  "is_ascii c = (c < 0x80)"

definition lower_unit :: "16 word \<Rightarrow> 16 word" where
  "lower_unit c = (if 0x41 \<le> c \<and> c \<le> 0x5A then c + 0x20 else c)"

definition upper_unit :: "16 word \<Rightarrow> 16 word" where
  "upper_unit c = (if 0x61 \<le> c \<and> c \<le> 0x7A then c - 0x20 else c)"

definition toLowerCase :: "platform \<Rightarrow> jsstring \<Rightarrow> jsstring" where
  "toLowerCase P s = (if list_all is_ascii s then map lower_unit s else unicode_lower P s)"

definition toUpperCase :: "platform \<Rightarrow> jsstring \<Rightarrow> jsstring" where
  "toUpperCase P s = (if list_all is_ascii s then map upper_unit s else unicode_upper P s)"

definition startsWith :: "jsstring \<Rightarrow> jsstring \<Rightarrow> bool" where
  "startsWith s p = (take (length p) s = p)"

definition endsWith :: "jsstring \<Rightarrow> jsstring \<Rightarrow> bool" where
  "endsWith s p = (length p \<le> length s \<and> drop (length s - length p) s = p)"

fun join_comma :: "jsstring list \<Rightarrow> jsstring" where
  "join_comma [] = []"
| "join_comma [s] = s"
| "join_comma (s # ss) = s @ lit '','' @ join_comma ss"

subsection \<open>Conversions\<close>

text \<open>
  \<^verbatim>\<open>String(v)\<close> and the conversion inside a template literal. An array joins its
  elements with commas, \<^verbatim>\<open>undefined\<close> and \<^verbatim>\<open>null\<close> as the empty string. A plain object
  becomes \<^verbatim>\<open>[object Object]\<close> through the inherited \<^verbatim>\<open>toString\<close>; an own property
  \<^verbatim>\<open>toString\<close> of a parsed object is not callable and hides the inherited one, and
  then the conversion throws a TypeError.
\<close>

fun ToString :: "platform \<Rightarrow> jsvalue \<Rightarrow> error + jsstring" where
  "ToString P JUndefined = Inr (lit ''undefined'')"
| "ToString P JNull = Inr (lit ''null'')"
| "ToString P (JBool b) = Inr (if b then lit ''true'' else lit ''false'')"
| "ToString P (JNum n) = Inr (num_to_str P n)"
| "ToString P (JStr s) = Inr s"
| "ToString P (JArr xs) =
     (case sequence (map (\<lambda>x. if x = JUndefined \<or> x = JNull then Inr [] else ToString P x) xs) of
        Inl e \<Rightarrow> Inl e
      | Inr ss \<Rightarrow> Inr (join_comma ss))"
| "ToString P (JObj kvs) =
     (if has_own kvs ''toString'' then Inl TypeError else Inr (lit ''[object Object]''))"
| "ToString P (JProto kvs p) = proto_to_string P (JProto kvs p)"
| "ToString P (JDate t) = Inr (date_to_str P t)"

text \<open>\<^verbatim>\<open>Number(v)\<close>\<close>

definition Number :: "platform \<Rightarrow> jsvalue \<Rightarrow> error + number" where
  "Number P v =
     (case v of
        JUndefined \<Rightarrow> Inr NaN
      | JNull \<Rightarrow> Inr (Fin 0)
      | JBool b \<Rightarrow> Inr (Fin (if b then 1 else 0))
      | JNum n \<Rightarrow> Inr n
      | JStr s \<Rightarrow> Inr (str_to_num P s)
      | JArr xs \<Rightarrow> (case ToString P v of Inl e \<Rightarrow> Inl e | Inr s \<Rightarrow> Inr (str_to_num P s))
      | JObj kvs \<Rightarrow> (if has_own kvs ''toString'' then Inl TypeError else Inr NaN)
      | JProto kvs p \<Rightarrow> proto_to_number P v
      | JDate t \<Rightarrow> Inr t)"

text \<open>\<^verbatim>\<open>v > 0\<close>, which converts \<open>v\<close> to a number first.\<close>

definition gt_zero :: "platform \<Rightarrow> jsvalue \<Rightarrow> error + bool" where
  "gt_zero P v =
     (case Number P v of
        Inl e \<Rightarrow> Inl e
      | Inr n \<Rightarrow> Inr (case n of Fin r \<Rightarrow> 0 < r | PosInf \<Rightarrow> True | _ \<Rightarrow> False))"

fun str_of :: "jsvalue \<Rightarrow> jsstring" where
  "str_of (JStr s) = s"
| "str_of _ = []"

section \<open>Key normalizer\<close>

text \<open>
  \<^verbatim>\<open>acc[k] = v\<close> on an object that has or gets the own property: an existing property
  keeps its place and takes the new value, a new one goes last.
\<close>

fun assign :: "(jsstring \<times> jsvalue) list \<Rightarrow> jsstring \<Rightarrow> jsvalue \<Rightarrow> (jsstring \<times> jsvalue) list" where
  "assign [] k v = [(k, v)]"
| "assign ((k', v') # kvs) k v = (if k' = k then (k, v) # kvs else (k', v') # assign kvs k v)"

text \<open>
  The name \<^verbatim>\<open>__proto__\<close> is an accessor of \<^verbatim>\<open>Object.prototype\<close>. An assignment to
  it reaches the accessor when neither the object nor an object of its prototype chain
  has an own property of that name and the chain ends in \<^verbatim>\<open>Object.prototype\<close>, as
  the chains of plain objects, arrays and dates do.
\<close>

fun reaches_accessor :: "jsvalue \<Rightarrow> bool" where
  "reaches_accessor (JObj kvs) = (\<not> has_own kvs ''__proto__'')"
| "reaches_accessor (JProto kvs p) = (\<not> has_own kvs ''__proto__'' \<and> reaches_accessor p)"
| "reaches_accessor (JArr xs) = True"
| "reaches_accessor (JDate t) = True"
| "reaches_accessor _ = False"

text \<open>
  \<^verbatim>\<open>acc[k] = v\<close> on the object under construction: its own properties and, once
  replaced, its prototype. The accessor replaces the prototype when \<open>v\<close> is an object
  or \<^verbatim>\<open>null\<close> and does nothing otherwise; it creates no property.
\<close>

definition set_prop ::
  "(jsstring \<times> jsvalue) list \<times> jsvalue option \<Rightarrow> jsstring \<Rightarrow> jsvalue \<Rightarrow>
   (jsstring \<times> jsvalue) list \<times> jsvalue option" where
  "set_prop acc k v =
     (case acc of
        (kvs, proto) \<Rightarrow>
          if k = lit ''__proto__'' \<and> \<not> has_own kvs ''__proto__'' \<and>
             (case proto of None \<Rightarrow> True | Some p \<Rightarrow> reaches_accessor p)
          then (if typeof v = ''object'' then (kvs, Some v) else (kvs, proto))
          else (assign kvs k v, proto))"

definition built :: "(jsstring \<times> jsvalue) list \<times> jsvalue option \<Rightarrow> jsvalue" where
  "built acc = (case acc of (kvs, None) \<Rightarrow> JObj kvs | (kvs, Some p) \<Rightarrow> JProto kvs p)"

text \<open>\<^verbatim>\<open>key.charAt(0).toLowerCase() + key.slice(1)\<close>\<close>

definition lowerFirst :: "platform \<Rightarrow> jsstring \<Rightarrow> jsstring" where
  "lowerFirst P key = (case key of [] \<Rightarrow> [] | c # cs \<Rightarrow> toLowerCase P [c] @ cs)"

text \<open>
  \<^verbatim>\<open>normalizeKeys\<close>. \<^verbatim>\<open>Object.keys\<close> lists the own properties, whatever the
  prototype, and the result starts as a new plain object.
\<close>

fun normalizeKeys :: "platform \<Rightarrow> jsvalue \<Rightarrow> jsvalue" where
  "normalizeKeys P (JArr xs) = JArr (map (normalizeKeys P) xs)"
| "normalizeKeys P (JObj kvs) =
     built (foldl (\<lambda>acc (key, v). set_prop acc (lowerFirst P key) (normalizeKeys P v)) ([], None) kvs)"
| "normalizeKeys P (JProto kvs p) =
     built (foldl (\<lambda>acc (key, v). set_prop acc (lowerFirst P key) (normalizeKeys P v)) ([], None) kvs)"
| "normalizeKeys P v = v"

section \<open>Quiz parsers\<close>

subsection \<open>Legacy format\<close>

definition isValidQuizOption :: "jsvalue \<Rightarrow> bool" where
  "isValidQuizOption opt =
     (typeof opt = ''object'' \<and> opt \<noteq> JNull \<and>
      typeof (read_prop opt ''text'') = ''string'' \<and>
      typeof (read_prop opt ''isCorrect'') = ''boolean'')"

definition isValidQuizQuestion :: "jsvalue \<Rightarrow> bool" where
  "isValidQuizQuestion q =
     (if typeof q \<noteq> ''object'' \<or> q = JNull then False
      else if typeof (read_prop q ''question'') \<noteq> ''string'' \<or>
              \<not> truthy (JStr (trim (str_of (read_prop q ''question'')))) then False
      else if \<not> strict_eq (read_prop q ''type'') (JStr (lit ''multiple-choice'')) \<and>
              \<not> strict_eq (read_prop q ''type'') (JStr (lit ''true-false'')) then False
      else if \<not> isArray (read_prop q ''options'') then False
      else list_all isValidQuizOption (elems (read_prop q ''options'')))"

definition isValidQuizQuestionArray :: "jsvalue \<Rightarrow> bool" where
  "isValidQuizQuestionArray data =
     (if \<not> isArray data then False else list_all isValidQuizQuestion (elems data))"

text \<open>
  The result is the normalized value itself, or \<^verbatim>\<open>undefined\<close>. A string is parsed
  only when, trimmed, it starts with \<^verbatim>\<open>[\<close> and ends with \<^verbatim>\<open>]\<close>; a parse error is
  caught.
\<close>

definition parseAndValidateQuiz :: "platform \<Rightarrow> jsvalue \<Rightarrow> jsvalue" where
  "parseAndValidateQuiz P quizData =
     (if \<not> truthy quizData then JUndefined
      else
        (case (if typeof quizData = ''string'' then
                 (if startsWith (trim (str_of quizData)) (lit ''['') \<and>
                     endsWith (trim (str_of quizData)) (lit '']'')
                  then JSON_parse P (str_of quizData)
                  else None)
               else Some quizData) of
           None \<Rightarrow> JUndefined
         | Some parsedQuiz \<Rightarrow>
             (let normalizedQuiz = normalizeKeys P parsedQuiz in
              if isValidQuizQuestionArray normalizedQuiz \<and> 0 < length (elems normalizedQuiz)
              then normalizedQuiz
              else JUndefined)))"

subsection \<open>Upload format\<close>

text \<open>The callback of \<^verbatim>\<open>questions.map\<close> in \<^verbatim>\<open>transformUploadedQuiz\<close>; \<open>None\<close> is \<^verbatim>\<open>null\<close>.\<close>

definition uploadedOption :: "platform \<Rightarrow> jsstring \<Rightarrow> jsvalue \<Rightarrow> error + jsvalue" where
  "uploadedOption P answer opt =
     (case ToString P opt of
        Inl e \<Rightarrow> Inl e
      | Inr s \<Rightarrow> Inr (JObj [(lit ''text'', JStr (trim s)), (lit ''isCorrect'', JBool (trim s = answer))]))"

definition uploadedQuestion :: "platform \<Rightarrow> jsvalue \<Rightarrow> error + jsvalue option" where
  "uploadedQuestion P q =
     (if \<not> truthy q \<or> typeof (read_prop q ''text'') \<noteq> ''string'' \<or>
         \<not> truthy (read_prop q ''type'') \<or> typeof (read_prop q ''answer'') = ''undefined''
      then Inr None
      else
        (case ToString P (read_prop q ''type'') of
           Inl e \<Rightarrow> Inl e
         | Inr ty \<Rightarrow>
        (case ToString P (read_prop q ''answer'') of
           Inl e \<Rightarrow> Inl e
         | Inr ans \<Rightarrow>
             (let questionType = toLowerCase P ty; answer = trim ans in
              if questionType = lit ''multiple_choice'' then
                (if \<not> isArray (read_prop q ''options'') then Inr None
                 else
                   (case sequence (map (uploadedOption P answer) (elems (read_prop q ''options''))) of
                      Inl e \<Rightarrow> Inl e
                    | Inr options \<Rightarrow>
                        Inr (Some (JObj [(lit ''question'', read_prop q ''text''),
                                         (lit ''type'', JStr (lit ''multiple-choice'')),
                                         (lit ''options'', JArr options)]))))
              else if questionType = lit ''true_false'' then
                (let answerBool = (toLowerCase P answer = lit ''true'') in
                 Inr (Some (JObj [(lit ''question'', read_prop q ''text''),
                                  (lit ''type'', JStr (lit ''true-false'')),
                                  (lit ''options'',
                                     JArr [JObj [(lit ''text'', JStr (lit ''True'')), (lit ''isCorrect'', JBool answerBool)],
                                           JObj [(lit ''text'', JStr (lit ''False'')), (lit ''isCorrect'', JBool (\<not> answerBool))]])])))
              else Inr None))))"

definition transformUploadedQuiz :: "platform \<Rightarrow> jsvalue \<Rightarrow> error + jsvalue" where
  "transformUploadedQuiz P questions =
     (if \<not> isArray questions then Inr JUndefined
      else
        (case sequence (map (uploadedQuestion P) (elems questions)) of
           Inl e \<Rightarrow> Inl e
         | Inr rs \<Rightarrow>
             (let transformed = somes rs in
              Inr (if 0 < length transformed then JArr transformed else JUndefined))))"

subsection \<open>Builder format\<close>

text \<open>
  \<^verbatim>\<open>transformQuestion\<close> of \<^verbatim>\<open>utils/dataTransform.ts\<close>. \<^verbatim>\<open>question.answer.toLowerCase()\<close>
  throws a TypeError unless the answer is a string, and \<^verbatim>\<open>question.options.map\<close> unless
  the options are an array.
\<close>

definition transformQuestion :: "platform \<Rightarrow> jsvalue \<Rightarrow> error + jsvalue option" where
  "transformQuestion P question =
     (case get question ''type'' of
        Inl e \<Rightarrow> Inl e
      | Inr ty \<Rightarrow>
          if strict_eq ty (JStr (lit ''true_false'')) then
            (case read_prop question ''answer'' of
               JStr a \<Rightarrow>
                 (let correctAnswer = toLowerCase P a in
                  Inr (Some (JObj [(lit ''question'', read_prop question ''text''),
                                   (lit ''type'', JStr (lit ''true-false'')),
                                   (lit ''options'',
                                      JArr [JObj [(lit ''text'', JStr (lit ''True'')),
                                                  (lit ''isCorrect'', JBool (correctAnswer = lit ''true''))],
                                            JObj [(lit ''text'', JStr (lit ''False'')),
                                                  (lit ''isCorrect'', JBool (correctAnswer = lit ''false''))]])])))
             | _ \<Rightarrow> Inl TypeError)
          else if strict_eq ty (JStr (lit ''multiple_choice'')) \<and> truthy (read_prop question ''options'') then
            (case read_prop question ''options'' of
               JArr opts \<Rightarrow>
                 Inr (Some (JObj [(lit ''question'', read_prop question ''text''),
                                  (lit ''type'', JStr (lit ''multiple-choice'')),
                                  (lit ''options'',
                                     JArr (map (\<lambda>optionText.
                                             JObj [(lit ''text'', optionText),
                                                   (lit ''isCorrect'',
                                                      JBool (strict_eq optionText (read_prop question ''answer'')))])
                                           opts))]))
             | _ \<Rightarrow> Inl TypeError)
          else Inr None)"

section \<open>Landmarks and the four coercers\<close>

text \<open>
  A landmark as the program holds it. The fields carry run-time values: the
  remote-artifact coercer copies fields without looking at them, and the legacy quiz
  parser returns the parsed value itself. \<open>id'\<close> is the field \<^verbatim>\<open>id\<close>.
\<close>

record Landmark =
  id' :: jsvalue
  name :: jsvalue
  title :: jsvalue
  description :: jsvalue
  aliases :: jsvalue
  imageUrl :: jsvalue
  coords :: jsvalue
  iconType :: jsvalue
  videoUrl :: jsvalue
  audioUrl :: jsvalue
  quiz :: jsvalue
  block_navigation :: jsvalue

text \<open>
  The coordinate check, written three times in the source with the same text (dataset,
  persisted overlay, upload). \<open>None\<close> is \<^verbatim>\<open>processedCoords = null\<close>.
\<close>

definition processCoords :: "platform \<Rightarrow> jsvalue \<Rightarrow> error + jsvalue option" where
  "processCoords P rawCoords =
     (if isArray rawCoords \<and> length (elems rawCoords) = 2 then
        (if elems rawCoords ! 0 \<noteq> JNull \<and> elems rawCoords ! 1 \<noteq> JNull then
           (case Number P (elems rawCoords ! 0) of
              Inl e \<Rightarrow> Inl e
            | Inr lat \<Rightarrow>
           (case Number P (elems rawCoords ! 1) of
              Inl e \<Rightarrow> Inl e
            | Inr lon \<Rightarrow>
                if isFinite lat \<and> isFinite lon then Inr (Some (JArr [JNum lat, JNum lon]))
                else Inr None))
         else Inr None)
      else Inr None)"

text \<open>\<^verbatim>\<open>['monument', 'nature', 'water'].includes(v) ? v : 'monument'\<close>\<close>

definition iconTypeOf :: "jsvalue \<Rightarrow> jsvalue" where
  "iconTypeOf v =
     (if v \<in> set [JStr (lit ''monument''), JStr (lit ''nature''), JStr (lit ''water'')] then v else JStr (lit ''monument''))"

subsection \<open>Remote artifact\<close>

text \<open>The quiz of a builder location: \<^verbatim>\<open>questions.map\<close> throws when \<^verbatim>\<open>questions\<close> is not an array.\<close>

definition builderQuiz :: "platform \<Rightarrow> jsvalue \<Rightarrow> error + jsvalue" where
  "builderQuiz P questions =
     (if \<not> truthy questions then Inr JUndefined
      else
        (case gt_zero P (read_prop questions ''length'') of
           Inl e \<Rightarrow> Inl e
         | Inr False \<Rightarrow> Inr JUndefined
         | Inr True \<Rightarrow>
             (if \<not> isArray questions then Inl TypeError
              else
                (case sequence (map (transformQuestion P) (elems questions)) of
                   Inl e \<Rightarrow> Inl e
                 | Inr rs \<Rightarrow>
                     (let transformedQuestions = somes rs in
                      Inr (if 0 < length transformedQuestions then JArr transformedQuestions
                           else JUndefined))))))"

definition builderLandmark :: "platform \<Rightarrow> jsvalue \<Rightarrow> nat \<Rightarrow> error + Landmark" where
  "builderLandmark P location index =
     (case get location ''questions'' of
        Inl e \<Rightarrow> Inl e
      | Inr questions \<Rightarrow>
     (case builderQuiz P questions of
        Inl e \<Rightarrow> Inl e
      | Inr quiz_v \<Rightarrow>
          Inr \<lparr> id' = JNum (Fin (of_nat index + 1)),
                name = read_prop location ''title'',
                title = read_prop location ''title'',
                description = read_prop location ''description'',
                aliases = JArr [read_prop location ''country''],
                imageUrl = or_else (read_prop location ''image'')
                             (JStr (lit ''https://via.placeholder.com/800x600?text=No+Image'')),
                coords = read_prop location ''coordinates'',
                iconType = JStr (lit ''monument''),
                videoUrl = read_prop location ''video'',
                audioUrl = read_prop location ''audio'',
                quiz = quiz_v,
                block_navigation = read_prop location ''block_navigation'' \<rparr>))"

definition transformBuilderDataToLandmarks :: "platform \<Rightarrow> jsvalue list \<Rightarrow> error + Landmark list" where
  "transformBuilderDataToLandmarks P builderData =
     sequence (map (\<lambda>(location, index). builderLandmark P location index) (indexed builderData))"

subsection \<open>Dataset rows\<close>

text \<open>
  The callback of \<^verbatim>\<open>items.map\<close> in \<^verbatim>\<open>loadData\<close>. \<^verbatim>\<open>(item.city as string).toUpperCase()\<close>
  throws a TypeError unless \<^verbatim>\<open>item.city\<close> is a string.
\<close>

definition datasetLandmark :: "platform \<Rightarrow> jsvalue \<Rightarrow> nat \<Rightarrow> error + Landmark option" where
  "datasetLandmark P item index =
     (case get item ''coordinates'' of
        Inl e \<Rightarrow> Inl e
      | Inr rawCoords \<Rightarrow>
     (case processCoords P rawCoords of
        Inl e \<Rightarrow> Inl e
      | Inr None \<Rightarrow> Inr None
      | Inr (Some processedCoords) \<Rightarrow>
          (let quizData = or_else (or_else (read_prop item ''quiz'') (read_prop item ''Quiz''))
                            (read_prop item ''questions'');
               quiz_v = parseAndValidateQuiz P quizData
           in case read_prop item ''city'' of
                JStr city \<Rightarrow>
                  Inr (Some \<lparr> id' = JNum (Fin (of_nat index + 1)),
                              name = JStr city,
                              title = JStr (toUpperCase P city),
                              description = read_prop item ''description'',
                              aliases = JUndefined,
                              imageUrl = read_prop item ''image'',
                              coords = processedCoords,
                              iconType = JStr (lit ''monument''),
                              videoUrl = read_prop item ''video'',
                              audioUrl = read_prop item ''audio'',
                              quiz = quiz_v,
                              block_navigation = JBool (truthy (read_prop item ''block_navigation'')) \<rparr>)
              | _ \<Rightarrow> Inl TypeError)))"

definition datasetLandmarks :: "platform \<Rightarrow> jsvalue list \<Rightarrow> error + Landmark list" where
  "datasetLandmarks P items =
     (case sequence (map (\<lambda>(item, index). datasetLandmark P item index) (indexed items)) of
        Inl e \<Rightarrow> Inl e
      | Inr rs \<Rightarrow> Inr (somes rs))"

subsection \<open>Persisted overlay\<close>

text \<open>The callback of \<^verbatim>\<open>loadedCustom.map\<close>; \<open>now\<close> is the value of \<^verbatim>\<open>Date.now()\<close>.\<close>

definition persistedLandmark :: "platform \<Rightarrow> rat \<Rightarrow> jsvalue \<Rightarrow> error + Landmark option" where
  "persistedLandmark P now item =
     (if typeof item \<noteq> ''object'' \<or> item = JNull then Inr None
      else
        (case processCoords P (read_prop item ''coords'') of
           Inl e \<Rightarrow> Inl e
         | Inr None \<Rightarrow> Inr None
         | Inr (Some processedCoords) \<Rightarrow>
             (case read_prop item ''name'' of
                JStr nm \<Rightarrow>
                  (if \<not> truthy (JStr (trim nm)) then Inr None
                   else
                     (case (if truthy (read_prop item ''imageUrl'') then Inr (read_prop item ''imageUrl'')
                            else
                              (case ToString P (or_else (read_prop item ''id'') (JStr nm)) of
                                 Inl e \<Rightarrow> Inl e
                               | Inr seed \<Rightarrow>
                                   Inr (JStr (lit ''https://picsum.photos/seed/'' @ seed @ lit ''/1200/800'')))) of
                        Inl e \<Rightarrow> Inl e
                      | Inr image_v \<Rightarrow>
                          Inr (Some \<lparr> id' = (if typeof (read_prop item ''id'') = ''number''
                                             then read_prop item ''id'' else JNum (Fin now)),
                                      name = JStr nm,
                                      title = or_else (read_prop item ''title'') (JStr (toUpperCase P nm)),
                                      description = or_else (read_prop item ''description'') (JStr []),
                                      aliases = JUndefined,
                                      imageUrl = image_v,
                                      coords = processedCoords,
                                      iconType = iconTypeOf (read_prop item ''iconType''),
                                      videoUrl = or_else (read_prop item ''videoUrl'') JNull,
                                      audioUrl = or_else (read_prop item ''audioUrl'') JNull,
                                      quiz = parseAndValidateQuiz P (read_prop item ''quiz''),
                                      block_navigation =
                                        JBool (truthy (read_prop item ''block_navigation'')) \<rparr>)))
              | _ \<Rightarrow> Inr None)))"

definition persistedLandmarks :: "platform \<Rightarrow> rat \<Rightarrow> jsvalue list \<Rightarrow> error + Landmark list" where
  "persistedLandmarks P now loadedCustom =
     (case sequence (map (persistedLandmark P now) loadedCustom) of
        Inl e \<Rightarrow> Inl e
      | Inr rs \<Rightarrow> Inr (somes rs))"

subsection \<open>Upload\<close>

text \<open>The quiz of an uploaded record: the new format first, the old one when it gives nothing.\<close>

definition uploadQuiz :: "platform \<Rightarrow> jsvalue \<Rightarrow> error + jsvalue" where
  "uploadQuiz P item =
     (case (if truthy (read_prop item ''questions'')
            then transformUploadedQuiz P (read_prop item ''questions'')
            else Inr JUndefined) of
        Inl e \<Rightarrow> Inl e
      | Inr quiz_v \<Rightarrow>
          (if \<not> truthy quiz_v
           then Inr (parseAndValidateQuiz P (or_else (read_prop item ''quiz'') (read_prop item ''Quiz'')))
           else Inr quiz_v))"

text \<open>The callback of \<^verbatim>\<open>loadedData.map\<close> in \<^verbatim>\<open>handleFileChange\<close>.\<close>

definition uploadLandmark :: "platform \<Rightarrow> rat \<Rightarrow> jsvalue \<Rightarrow> nat \<Rightarrow> error + Landmark option" where
  "uploadLandmark P now item index =
     (if typeof item \<noteq> ''object'' \<or> item = JNull then Inr None
      else
        (case or_else (or_else (read_prop item ''name'') (read_prop item ''city'')) (read_prop item ''title'') of
           JStr nm \<Rightarrow>
             (if \<not> truthy (JStr (trim nm)) then Inr None
              else
                (case processCoords P (or_else (read_prop item ''coords'') (read_prop item ''coordinates'')) of
                   Inl e \<Rightarrow> Inl e
                 | Inr None \<Rightarrow> Inr None
                 | Inr (Some processedCoords) \<Rightarrow>
                     (case uploadQuiz P item of
                        Inl e \<Rightarrow> Inl e
                      | Inr quiz_v \<Rightarrow>
                          Inr (Some \<lparr> id' = (if truthy (read_prop item ''id'') \<and>
                                                typeof (read_prop item ''id'') = ''number''
                                             then read_prop item ''id''
                                             else JNum (Fin (now + of_nat index))),
                                      name = JStr nm,
                                      title = or_else (read_prop item ''title'') (JStr (toUpperCase P nm)),
                                      description = or_else (read_prop item ''description'') (JStr []),
                                      aliases = JUndefined,
                                      imageUrl =
                                        or_else (or_else (read_prop item ''imageUrl'') (read_prop item ''image''))
                                          (JStr (lit ''https://picsum.photos/seed/'' @
                                                 num_to_str P (Fin (now + of_nat index)) @ lit ''/1200/800'')),
                                      coords = processedCoords,
                                      iconType = iconTypeOf (read_prop item ''iconType''),
                                      videoUrl =
                                        or_else (or_else (read_prop item ''videoUrl'') (read_prop item ''video'')) JNull,
                                      audioUrl =
                                        or_else (or_else (read_prop item ''audioUrl'') (read_prop item ''audio'')) JNull,
                                      quiz = quiz_v,
                                      block_navigation =
                                        JBool (truthy (read_prop item ''block_navigation'')) \<rparr>))))
         | _ \<Rightarrow> Inr None))"

definition uploadLandmarks :: "platform \<Rightarrow> rat \<Rightarrow> jsvalue list \<Rightarrow> error + Landmark list" where
  "uploadLandmarks P now loadedData =
     (case sequence (map (\<lambda>(item, index). uploadLandmark P now item index) (indexed loadedData)) of
        Inl e \<Rightarrow> Inl e
      | Inr rs \<Rightarrow> Inr (somes rs))"

section \<open>Canonical quiz values\<close>

text \<open>
  The declared types of \<^verbatim>\<open>types.ts\<close> and the value each of them is at run time. The
  selectors are prefixed because \<^verbatim>\<open>text\<close> and \<^verbatim>\<open>type\<close> are reserved words here.
\<close>

datatype QuestionType = MultipleChoice | TrueFalse

record QuizOption =
  opt_text :: jsstring
  opt_isCorrect :: bool

record QuizQuestion =
  q_question :: jsstring
  q_type :: QuestionType
  q_options :: "QuizOption list"

fun type_js :: "QuestionType \<Rightarrow> jsstring" where
  "type_js MultipleChoice = lit ''multiple-choice''"
| "type_js TrueFalse = lit ''true-false''"

definition option_js :: "QuizOption \<Rightarrow> jsvalue" where
  "option_js opt = JObj [(lit ''text'', JStr (opt_text opt)), (lit ''isCorrect'', JBool (opt_isCorrect opt))]"

definition question_js :: "QuizQuestion \<Rightarrow> jsvalue" where
  "question_js q =
     JObj [(lit ''question'', JStr (q_question q)),
           (lit ''type'', JStr (type_js (q_type q))),
           (lit ''options'', JArr (map option_js (q_options q)))]"

definition quiz_js :: "QuizQuestion list \<Rightarrow> jsvalue" where
  "quiz_js qs = JArr (map question_js qs)"

section \<open>Session parameters and quiz submission\<close>

text \<open>\<^verbatim>\<open>utils/urlParams.ts\<close>; \<open>None\<close> is \<^verbatim>\<open>null\<close>, and \<open>query\<close> is \<^verbatim>\<open>URLSearchParams.get\<close>.\<close>

record URLParams =
  token :: "jsstring option"
  artifactId :: "jsstring option"
  baseUrl :: "jsstring option"

definition getURLParams :: "(string \<Rightarrow> jsstring option) \<Rightarrow> URLParams" where
  "getURLParams query =
     \<lparr> token = query ''token'',
       artifactId = query ''artifact_id'',
       baseUrl = (case query ''base_url'' of
                    None \<Rightarrow> None
                  | Some b \<Rightarrow> if b \<noteq> [] \<and> endsWith b (lit ''/'') then Some (butlast b) else Some b) \<rparr>"

text \<open>Truthiness of a string or \<^verbatim>\<open>null\<close>.\<close>

definition present :: "jsstring option \<Rightarrow> bool" where
  "present v = (case v of None \<Rightarrow> False | Some s \<Rightarrow> s \<noteq> [])"

definition hasRequiredParams :: "URLParams \<Rightarrow> bool" where
  "hasRequiredParams params = (present (token params) \<and> present (artifactId params) \<and> present (baseUrl params))"

text \<open>
  A request as \<^verbatim>\<open>fetch\<close> receives it, and what comes back: the promise is rejected, or
  a response arrives with its \<^verbatim>\<open>ok\<close> flag.
\<close>

record request =
  url :: jsstring
  http_method :: jsstring
  headers :: "(jsstring \<times> jsstring) list"
  body :: jsstring

datatype response = Rejected | Response bool

text \<open>
  \<^verbatim>\<open>submitQuizResults\<close> of \<^verbatim>\<open>utils/quizSubmission.ts\<close>. The result is the value of the
  promise together with the requests sent. Everything after the parameter check runs
  inside \<^verbatim>\<open>try\<close>, and the handler returns \<^verbatim>\<open>false\<close>.
\<close>

definition submitQuizResults ::
  "platform \<Rightarrow> URLParams \<Rightarrow> (request \<Rightarrow> response) \<Rightarrow> jsvalue \<Rightarrow> bool \<times> request list" where
  "submitQuizResults P urlParams fetch submissionData =
     (case (token urlParams, artifactId urlParams, baseUrl urlParams) of
        (Some tok, Some artifact, Some base) \<Rightarrow>
          (if tok = [] \<or> artifact = [] \<or> base = [] then (False, [])
           else
             (let content = JSON_stringify P submissionData;
                  req = \<lparr> url = base @ lit ''/organization/results/artifact/'' @ artifact @ lit ''/submission/'',
                          http_method = lit ''POST'',
                          headers = [(lit ''Accept'', lit ''application/json, text/plain, */*''),
                                     (lit ''Authorization'', lit ''Bearer '' @ tok),
                                     (lit ''Content-Type'', lit ''application/json'')],
                          body = JSON_stringify P
                                   (JObj [(lit ''artifacts'', JNum (parseInt P artifact)),
                                          (lit ''content'', JStr content),
                                          (lit ''status'', JStr (lit ''submitted''))]) \<rparr>
              in case fetch req of
                   Rejected \<Rightarrow> (False, [req])
                 | Response ok \<Rightarrow> (if \<not> ok then (False, [req]) else (True, [req]))))
      | _ \<Rightarrow> (False, []))"

section \<open>Tour loader\<close>

text \<open>What \<^verbatim>\<open>loadData\<close> finds outside the program.\<close>

datatype fetch_outcome = FetchRejected | FetchResponse bool "error + jsvalue"

datatype dataset_source = NoDatasetApi | DatasetFails | DatasetRows "jsvalue list"

datatype storage = StorageFails | StorageItem "jsstring option"

record load_env =
  env_params :: URLParams
  artifact_fetch :: fetch_outcome
  dataset :: dataset_source
  stored_locations :: storage
  clock :: rat

text \<open>
  \<^verbatim>\<open>k in v\<close>: whether \<open>v\<close> has the property, its own or inherited; it throws on a
  value that is not an object.
\<close>

fun has_prop :: "jsvalue \<Rightarrow> string \<Rightarrow> bool" where
  "has_prop (JObj kvs) k = has_own kvs k"
| "has_prop (JProto kvs p) k = (has_own kvs k \<or> has_prop p k)"
| "has_prop _ k = False"

definition in_op :: "string \<Rightarrow> jsvalue \<Rightarrow> error + bool" where
  "in_op k v = (if typeof v = ''object'' \<and> v \<noteq> JNull then Inr (has_prop v k) else Inl TypeError)"

text \<open>
  The remote branch. Every exception in it is caught and the loader goes on to the
  dataset; \<open>None\<close> is that outcome.
\<close>

definition remoteLandmarks :: "platform \<Rightarrow> Landmark \<Rightarrow> load_env \<Rightarrow> Landmark list option" where
  "remoteLandmarks P INTRO_LANDMARK env =
     (if \<not> hasRequiredParams (env_params env) then None
      else
        (case artifact_fetch env of
           FetchResponse True (Inr data) \<Rightarrow>
             (case in_op ''artifact_data'' data of
                Inr True \<Rightarrow>
                  (if truthy (read_prop data ''artifact_data'') then
                     (case ToString P (read_prop data ''artifact_data'') of
                        Inl e \<Rightarrow> None
                      | Inr s \<Rightarrow>
                          (case JSON_parse P s of
                             None \<Rightarrow> None
                           | Some parsedData \<Rightarrow>
                               (if isArray parsedData \<and> 0 < length (elems parsedData) then
                                  (case transformBuilderDataToLandmarks P (elems parsedData) of
                                     Inl e \<Rightarrow> None
                                   | Inr transformedLandmarks \<Rightarrow>
                                       Some (INTRO_LANDMARK # transformedLandmarks))
                                else None)))
                   else None)
              | _ \<Rightarrow> None)
         | _ \<Rightarrow> None))"

definition baseLandmarksOf :: "platform \<Rightarrow> Landmark \<Rightarrow> Landmark list \<Rightarrow> load_env \<Rightarrow> Landmark list" where
  "baseLandmarksOf P INTRO_LANDMARK FALLBACK_LANDMARKS env =
     (case dataset env of
        DatasetRows items \<Rightarrow>
          (if 0 < length items then
             (case datasetLandmarks P items of
                Inl e \<Rightarrow> FALLBACK_LANDMARKS
              | Inr formattedLandmarks \<Rightarrow> INTRO_LANDMARK # formattedLandmarks)
           else FALLBACK_LANDMARKS)
      | _ \<Rightarrow> FALLBACK_LANDMARKS)"

definition combinedLandmarksOf :: "platform \<Rightarrow> load_env \<Rightarrow> Landmark list \<Rightarrow> Landmark list" where
  "combinedLandmarksOf P env loadedBaseLandmarks =
     (case stored_locations env of
        StorageFails \<Rightarrow> loadedBaseLandmarks
      | StorageItem None \<Rightarrow> loadedBaseLandmarks
      | StorageItem (Some customLandmarksJSON) \<Rightarrow>
          (if customLandmarksJSON = [] then loadedBaseLandmarks
           else
             (case JSON_parse P customLandmarksJSON of
                None \<Rightarrow> loadedBaseLandmarks
              | Some loadedCustom \<Rightarrow>
                  (if isArray loadedCustom then
                     (case persistedLandmarks P (clock env) (elems loadedCustom) of
                        Inl e \<Rightarrow> loadedBaseLandmarks
                      | Inr sanitizedCustom \<Rightarrow> loadedBaseLandmarks @ sanitizedCustom)
                   else loadedBaseLandmarks))))"

text \<open>
  \<^verbatim>\<open>loadData\<close>: the pair of \<^verbatim>\<open>landmarks\<close> and \<^verbatim>\<open>baseLandmarks\<close> it sets. The two
  constants of \<^verbatim>\<open>constants.ts\<close> are parameters.
\<close>

definition loadData ::
  "platform \<Rightarrow> Landmark \<Rightarrow> Landmark list \<Rightarrow> load_env \<Rightarrow> Landmark list \<times> Landmark list" where
  "loadData P INTRO_LANDMARK FALLBACK_LANDMARKS env =
     (case remoteLandmarks P INTRO_LANDMARK env of
        Some loadedBaseLandmarks \<Rightarrow> (loadedBaseLandmarks, loadedBaseLandmarks)
      | None \<Rightarrow>
          (let loadedBaseLandmarks = baseLandmarksOf P INTRO_LANDMARK FALLBACK_LANDMARKS env
           in (combinedLandmarksOf P env loadedBaseLandmarks, loadedBaseLandmarks)))"

text \<open>
  Modelled from the spec: \<^verbatim>\<open>constants.ts\<close>, which defines \<^verbatim>\<open>INTRO_LANDMARK\<close> and
  \<^verbatim>\<open>FALLBACK_LANDMARKS\<close>, is not among the sources. The spec gives the intro landmark
  the id 0, no quiz and no gating, and makes the built-in tour the intro followed by the
  fallback landmarks.
\<close>

definition is_intro :: "Landmark \<Rightarrow> bool" where
  "is_intro l = (id' l = JNum (Fin 0) \<and> quiz l = JUndefined \<and> \<not> truthy (block_navigation l))"

definition headed_by :: "Landmark \<Rightarrow> Landmark list \<Rightarrow> bool" where
  "headed_by intro tour = (case tour of [] \<Rightarrow> False | l # ls \<Rightarrow> l = intro)"

section \<open>Navigation\<close>

text \<open>
  The state of the \<^verbatim>\<open>App\<close> component that navigation reads and writes. A handler
  reads the state of the render it was created in; between two events the component
  has rendered, so a handler reads the current state. The two closures that outlive
  an event are data: the \<^verbatim>\<open>onComplete\<close> of the quiz modal, which keeps the
  \<^verbatim>\<open>sidebarIndex\<close> and the number of landmarks of the moment \<^verbatim>\<open>Next\<close> was issued, and
  the timeouts, each with the milliseconds left until it fires.
\<close>

datatype callback = Noop | CloseAndTransition int nat

record quiz_modal =
  isOpen :: bool
  questions :: jsvalue
  onComplete :: callback

datatype timeout = SwapSidebar int string | SwapBoth int | EndTransition

record app_state =
  landmarks :: "Landmark list"
  activeIndex :: int
  sidebarIndex :: int
  animationClass :: string
  isTransitioning :: bool
  quizModalInfo :: quiz_modal
  modalCoords :: jsvalue
  justAddedLandmarkId :: jsvalue
  timeouts :: "(nat \<times> timeout) list"

text \<open>\<^verbatim>\<open>xs[i]\<close>: \<^verbatim>\<open>undefined\<close> out of range.\<close>

definition at_index :: "'a list \<Rightarrow> int \<Rightarrow> 'a option" where
  "at_index xs i = (if 0 \<le> i \<and> i < int (length xs) then Some (xs ! nat i) else None)"

text \<open>\<^verbatim>\<open>a % b\<close> on integers, for \<open>b \<noteq> 0\<close>: the remainder has the sign of \<open>a\<close>.\<close>

definition js_rem :: "int \<Rightarrow> int \<Rightarrow> int" where
  "js_rem a b = a smod b"

fun findIndex :: "('a \<Rightarrow> bool) \<Rightarrow> 'a list \<Rightarrow> int" where
  "findIndex p [] = -1"
| "findIndex p (x # xs) = (if p x then 0 else (let i = findIndex p xs in if i = -1 then -1 else i + 1))"

text \<open>\<^verbatim>\<open>setTimeout(f, d)\<close>: the new timeout fires after those that are due no later.\<close>

fun enqueue :: "nat \<times> timeout \<Rightarrow> (nat \<times> timeout) list \<Rightarrow> (nat \<times> timeout) list" where
  "enqueue t [] = [t]"
| "enqueue t (u # us) = (if fst u \<le> fst t then u # enqueue t us else t # u # us)"

definition setTimeout :: "timeout \<Rightarrow> nat \<Rightarrow> app_state \<Rightarrow> app_state" where
  "setTimeout f d s = s\<lparr>timeouts := enqueue (d, f) (timeouts s)\<rparr>"

fun run_timeout :: "timeout \<Rightarrow> app_state \<Rightarrow> app_state" where
  "run_timeout (SwapSidebar nextIndex cls) s = s\<lparr>sidebarIndex := nextIndex, animationClass := cls\<rparr>"
| "run_timeout (SwapBoth index) s =
     s\<lparr>activeIndex := index, sidebarIndex := index, animationClass := ''animate-fade-in-fast''\<rparr>"
| "run_timeout EndTransition s = s\<lparr>animationClass := [], isTransitioning := False\<rparr>"

text \<open>The next timeout fires; the others have that much less to wait.\<close>

definition fire_next :: "app_state \<Rightarrow> app_state" where
  "fire_next s =
     (case timeouts s of
        [] \<Rightarrow> s
      | (d, f) # rest \<Rightarrow> run_timeout f (s\<lparr>timeouts := map (\<lambda>(d', f'). (d' - d, f')) rest\<rparr>))"

text \<open>The inner function \<^verbatim>\<open>transition\<close> of \<^verbatim>\<open>handleNext\<close>, with the variables it closes over.\<close>

definition transition :: "int \<Rightarrow> nat \<Rightarrow> app_state \<Rightarrow> app_state" where
  "transition sidebarIndex0 len s =
     (let nextIndex = js_rem (sidebarIndex0 + 1) (int len) in
      setTimeout EndTransition 800
        (setTimeout (SwapSidebar nextIndex ''animate-slide-in-right-full'') 400
           (s\<lparr>isTransitioning := True,
              animationClass := ''animate-slide-out-left-full'',
              activeIndex := nextIndex\<rparr>)))"

text \<open>
  The gate of \<^verbatim>\<open>handleNext\<close>. A landmark's quiz is \<^verbatim>\<open>undefined\<close> or an array, whatever
  produced it, so \<^verbatim>\<open>quiz.length > 0\<close> compares a number.
\<close>

definition gated :: "Landmark option \<Rightarrow> bool" where
  "gated currentLandmark =
     (case currentLandmark of
        None \<Rightarrow> False
      | Some l \<Rightarrow>
          \<not> strict_eq (id' l) (JNum (Fin 0)) \<and> truthy (quiz l) \<and>
          (case read_prop (quiz l) ''length'' of JNum (Fin n) \<Rightarrow> 0 < n | _ \<Rightarrow> False) \<and>
          truthy (block_navigation l))"

definition handleNext :: "app_state \<Rightarrow> app_state" where
  "handleNext s =
     (if isTransitioning s \<or> length (landmarks s) = 0 then s
      else
        (let currentLandmark = at_index (landmarks s) (sidebarIndex s) in
         if gated currentLandmark then
           s\<lparr>quizModalInfo :=
               \<lparr> isOpen = True,
                 questions = (case currentLandmark of Some l \<Rightarrow> quiz l | None \<Rightarrow> JNull),
                 onComplete = CloseAndTransition (sidebarIndex s) (length (landmarks s)) \<rparr>\<rparr>
         else transition (sidebarIndex s) (length (landmarks s)) s))"

text \<open>The button of the quiz modal calls \<^verbatim>\<open>onComplete\<close>; the modal shows it only while open.\<close>

definition quizComplete :: "app_state \<Rightarrow> app_state" where
  "quizComplete s =
     (if \<not> isOpen (quizModalInfo s) then s
      else
        (case onComplete (quizModalInfo s) of
           Noop \<Rightarrow> s
         | CloseAndTransition sidebarIndex0 len \<Rightarrow>
             transition sidebarIndex0 len
               (s\<lparr>quizModalInfo := \<lparr> isOpen = False, questions = JNull, onComplete = Noop \<rparr>\<rparr>)))"

definition handlePrev :: "app_state \<Rightarrow> app_state" where
  "handlePrev s =
     (if isTransitioning s \<or> length (landmarks s) = 0 then s
      else
        (let nextIndex = js_rem (sidebarIndex s - 1 + int (length (landmarks s))) (int (length (landmarks s))) in
         setTimeout EndTransition 800
           (setTimeout (SwapSidebar nextIndex ''animate-slide-in-left-full'') 400
              (s\<lparr>isTransitioning := True,
                 animationClass := ''animate-slide-out-right-full'',
                 activeIndex := nextIndex\<rparr>))))"

definition handleSelectLandmark :: "jsvalue \<Rightarrow> app_state \<Rightarrow> app_state" where
  "handleSelectLandmark ident s =
     (if isTransitioning s then s
      else
        (let index = findIndex (\<lambda>landmark. strict_eq (id' landmark) ident) (landmarks s) in
         if index \<noteq> -1 \<and> index \<noteq> sidebarIndex s then
           setTimeout EndTransition 600
             (setTimeout (SwapBoth index) 300
                (s\<lparr>isTransitioning := True, animationClass := ''animate-fade-out''\<rparr>))
         else s))"

text \<open>The effect that runs when \<^verbatim>\<open>landmarks\<close> has changed.\<close>

definition focusJustAdded :: "app_state \<Rightarrow> app_state" where
  "focusJustAdded s =
     (if truthy (justAddedLandmarkId s) \<and> 0 < length (landmarks s) then
        (let newIndex = findIndex (\<lambda>l. strict_eq (id' l) (justAddedLandmarkId s)) (landmarks s) in
         if newIndex \<noteq> -1 then
           s\<lparr>activeIndex := newIndex, sidebarIndex := newIndex, justAddedLandmarkId := JNull\<rparr>
         else s)
      else s)"

text \<open>
  \<^verbatim>\<open>handleSaveLandmark\<close>, followed by the effect above. The data of the form has no
  \<^verbatim>\<open>id\<close> and no \<^verbatim>\<open>coords\<close>; the handler supplies both. The copy written to the
  browser store does not touch the tour and is left out.
\<close>

definition handleSaveLandmark :: "rat \<Rightarrow> Landmark \<Rightarrow> app_state \<Rightarrow> app_state" where
  "handleSaveLandmark now newLandmarkData s =
     (if \<not> truthy (modalCoords s) then s
      else
        (let newLandmark = newLandmarkData\<lparr>id' := JNum (Fin now), coords := modalCoords s\<rparr> in
         focusJustAdded
           (s\<lparr>justAddedLandmarkId := id' newLandmark,
              landmarks := landmarks s @ [newLandmark],
              modalCoords := JNull\<rparr>)))"

section \<open>Upload\<close>

text \<open>The two alerts of \<^verbatim>\<open>reader.onload\<close>: no valid landmark, and the message of the \<^verbatim>\<open>catch\<close>.\<close>

datatype alert = NoValidLandmarks | CouldNotLoad error

text \<open>
  \<^verbatim>\<open>reader.onload\<close> of \<^verbatim>\<open>handleFileChange\<close> on the text of the file: the new state
  and the alert shown, if any. A new tour makes the effect on \<^verbatim>\<open>landmarks\<close> run.
\<close>

definition handleFileChange ::
  "platform \<Rightarrow> Landmark \<Rightarrow> rat \<Rightarrow> jsstring \<Rightarrow> app_state \<Rightarrow> app_state \<times> alert option" where
  "handleFileChange P INTRO_LANDMARK now file_text s =
     (if file_text = [] then (s, Some (CouldNotLoad (Error ''File could not be read.'')))
      else
        (case JSON_parse P file_text of
           None \<Rightarrow> (s, Some (CouldNotLoad SyntaxError))
         | Some loadedData \<Rightarrow>
             (if \<not> isArray loadedData then
                (s, Some (CouldNotLoad
                   (Error ''Invalid data format. The JSON file must contain an array of landmarks.'')))
              else
                (case uploadLandmarks P now (elems loadedData) of
                   Inl e \<Rightarrow> (s, Some (CouldNotLoad e))
                 | Inr newLandmarks \<Rightarrow>
                     (if length newLandmarks = 0 then (s, Some NoValidLandmarks)
                      else
                        (focusJustAdded
                           (s\<lparr>landmarks := INTRO_LANDMARK # newLandmarks,
                              activeIndex := 1,
                              sidebarIndex := 1\<rparr>), None))))))"

section \<open>A platform for the examples\<close>

text \<open>
  The theorems below hold on every platform. The examples are evaluated on this one,
  which knows the conversions of the strings and documents the examples use; the
  examples use ASCII strings and plain objects.
\<close>

definition example_platform :: platform where
  "example_platform =
     \<lparr> str_to_num = (\<lambda>s. case map_of [(lit ''30.33'', Fin (3033 / 100)),
                                        (lit ''35.44'', Fin (3544 / 100))] s of
                            Some n \<Rightarrow> n | None \<Rightarrow> NaN),
       num_to_str = (\<lambda>n. case map_of [(Fin 0, lit ''0''), (Fin 1, lit ''1''), (NaN, lit ''NaN'')] n of
                            Some s \<Rightarrow> s | None \<Rightarrow> lit ''Infinity''),
       date_to_str = (\<lambda>t. lit ''Thu Jan 01 1970''),
       JSON_parse = map_of
         [(lit ''[]'', JArr []),
          (lit ''[{}]'', JArr [JObj []]),
          (lit ''[{\"name\":\"Petra\"},7]'', JArr [JObj [(lit ''name'', JStr (lit ''Petra''))], JNum (Fin 7)]),
          (lit ''[{\"name\":\"Petra\",\"coordinates\":[30,35]}]'',
             JArr [JObj [(lit ''name'', JStr (lit ''Petra'')),
                         (lit ''coordinates'', JArr [JNum (Fin 30), JNum (Fin 35)])]])],
       JSON_stringify = (\<lambda>v. case v of JObj [] \<Rightarrow> lit ''{}'' | _ \<Rightarrow> lit ''null''),
       parseInt = (\<lambda>s. case map_of [(lit ''42'', Fin 42)] s of Some n \<Rightarrow> n | None \<Rightarrow> NaN),
       unicode_lower = (\<lambda>s. s),
       unicode_upper = (\<lambda>s. s),
       proto_to_string = (\<lambda>v. Inr (lit ''[object Object]'')),
       proto_to_number = (\<lambda>v. Inr NaN) \<rparr>"

text \<open>
  The tour of scenario A of the specification: the intro, a landmark without a quiz
  and a landmark with a quiz that blocks navigation; and a state that views index \<open>i\<close>
  of a tour with nothing in flight.
\<close>

definition example_landmark :: "rat \<Rightarrow> string \<Rightarrow> jsvalue \<Rightarrow> bool \<Rightarrow> Landmark" where
  "example_landmark n nm quiz_v block =
     \<lparr> id' = JNum (Fin n), name = JStr (lit nm), title = JStr (map upper_unit (lit nm)),
       description = JStr [], aliases = JUndefined,
       imageUrl = JStr (lit ''https://via.placeholder.com/800x600?text=No+Image''),
       coords = JArr [JNum (Fin 30), JNum (Fin 35)], iconType = JStr (lit ''monument''),
       videoUrl = JNull, audioUrl = JNull, quiz = quiz_v, block_navigation = JBool block \<rparr>"

definition example_quiz :: jsvalue where
  "example_quiz =
     quiz_js [\<lparr> q_question = lit ''Q'', q_type = TrueFalse,
                 q_options = [\<lparr> opt_text = lit ''True'', opt_isCorrect = True \<rparr>,
                              \<lparr> opt_text = lit ''False'', opt_isCorrect = False \<rparr>] \<rparr>]"

definition example_tour :: "Landmark list" where
  "example_tour =
     [example_landmark 0 ''Intro'' JUndefined False,
      example_landmark 1 ''L1'' JUndefined False,
      example_landmark 2 ''L2'' example_quiz True]"

definition viewing :: "Landmark list \<Rightarrow> int \<Rightarrow> app_state" where
  "viewing tour i =
     \<lparr> landmarks = tour, activeIndex = i, sidebarIndex = i, animationClass = [],
       isTransitioning = False,
       quizModalInfo = \<lparr> isOpen = False, questions = JNull, onComplete = Noop \<rparr>,
       modalCoords = JNull, justAddedLandmarkId = JNull, timeouts = [] \<rparr>"

section \<open>What the specification calls a usable record\<close>

text \<open>
  The key normalizer as the specification words it: the same value, with the first
  character of every key of every object lower-cased, through arrays and objects. A
  character is a code unit, as in \<^verbatim>\<open>charAt\<close>, and the result for an object is a
  plain object.
\<close>

fun renameKeys :: "platform \<Rightarrow> jsvalue \<Rightarrow> jsvalue" where
  "renameKeys P (JArr xs) = JArr (map (renameKeys P) xs)"
| "renameKeys P (JObj kvs) = JObj (map (\<lambda>(key, v). (lowerFirst P key, renameKeys P v)) kvs)"
| "renameKeys P (JProto kvs p) = JObj (map (\<lambda>(key, v). (lowerFirst P key, renameKeys P v)) kvs)"
| "renameKeys P v = v"

text \<open>
  No object of the value has two keys that become equal when their first character
  is lower-cased, nor a key that becomes \<^verbatim>\<open>__proto__\<close>.
\<close>

fun no_clash :: "platform \<Rightarrow> jsvalue \<Rightarrow> bool" where
  "no_clash P (JArr xs) = list_all (no_clash P) xs"
| "no_clash P (JObj kvs) =
     (distinct (lit ''__proto__'' # map (\<lambda>(key, v). lowerFirst P key) kvs) \<and>
      list_all (\<lambda>(key, v). no_clash P v) kvs)"
| "no_clash P (JProto kvs p) =
     (distinct (lit ''__proto__'' # map (\<lambda>(key, v). lowerFirst P key) kvs) \<and>
      list_all (\<lambda>(key, v). no_clash P v) kvs)"
| "no_clash P v = True"

text \<open>A usable name is a string with something other than whitespace in it.\<close>

definition name_usable :: "jsvalue \<Rightarrow> bool" where
  "name_usable v = (case v of JStr s \<Rightarrow> trim s \<noteq> [] | _ \<Rightarrow> False)"

text \<open>
  Usable coordinates are an array of two entries, neither of them \<^verbatim>\<open>null\<close>, that
  convert to two finite numbers.
\<close>

definition converts_finite :: "platform \<Rightarrow> jsvalue \<Rightarrow> bool" where
  "converts_finite P c = (case Number P c of Inl e \<Rightarrow> False | Inr n \<Rightarrow> isFinite n)"

definition coords_usable :: "platform \<Rightarrow> jsvalue \<Rightarrow> bool" where
  "coords_usable P raw =
     (case raw of
        JArr [c0, c1] \<Rightarrow> c0 \<noteq> JNull \<and> c1 \<noteq> JNull \<and> converts_finite P c0 \<and> converts_finite P c1
      | _ \<Rightarrow> False)"

text \<open>
  Every entry converts to some number, finite or not: so do numbers, strings,
  booleans, \<^verbatim>\<open>null\<close> and arrays of them; an object with an own \<^verbatim>\<open>toString\<close> does not.
\<close>

definition entries_convert :: "platform \<Rightarrow> jsvalue \<Rightarrow> bool" where
  "entries_convert P raw =
     list_all (\<lambda>c. case Number P c of Inl e \<Rightarrow> False | Inr n \<Rightarrow> True) (elems raw)"

text \<open>The name and the coordinates of an uploaded record, under the keys the upload accepts.\<close>

definition upload_name :: "jsvalue \<Rightarrow> jsvalue" where
  "upload_name item =
     or_else (or_else (read_prop item ''name'') (read_prop item ''city'')) (read_prop item ''title'')"

definition upload_coords :: "jsvalue \<Rightarrow> jsvalue" where
  "upload_coords item = or_else (read_prop item ''coords'') (read_prop item ''coordinates'')"

definition upload_valid :: "platform \<Rightarrow> jsvalue \<Rightarrow> bool" where
  "upload_valid P item =
     (typeof item = ''object'' \<and> item \<noteq> JNull \<and>
      name_usable (upload_name item) \<and> coords_usable P (upload_coords item))"

text \<open>The same for a record of the persisted overlay, which has the keys of a landmark.\<close>

definition persisted_valid :: "platform \<Rightarrow> jsvalue \<Rightarrow> bool" where
  "persisted_valid P item =
     (typeof item = ''object'' \<and> item \<noteq> JNull \<and>
      name_usable (read_prop item ''name'') \<and> coords_usable P (read_prop item ''coords''))"

text \<open>A dataset row is kept for its coordinates alone.\<close>

definition dataset_valid :: "platform \<Rightarrow> jsvalue \<Rightarrow> bool" where
  "dataset_valid P item = coords_usable P (read_prop item ''coordinates'')"

section \<open>Quiz parsers: properties\<close>

lemma lit_simps [simp]:
  "lit [] = []"
  "lit (c # cs) = of_char c # lit cs"
  by (simp_all add: lit_def)

lemma read_prop_defined:
  assumes "read_prop q k = JStr s" and "k \<noteq> ''length''"
  shows "truthy q" and "q \<noteq> JUndefined" and "q \<noteq> JNull"
  using assms by (cases q; simp)+

lemma toLowerCase_ascii:
  assumes "list_all is_ascii s"
  shows "toLowerCase P s = map lower_unit s"
  using assms by (simp add: toLowerCase_def)

lemmas ascii_simps = toLowerCase_ascii is_ascii_def lower_unit_def trim_def is_space_def

lemma Number_one [simp]: "Number P (JNum n) = Inr n"
  by (simp add: Number_def)

lemma builderQuiz_single:
  assumes "transformQuestion P q = Inr (Some r)"
  shows "builderQuiz P (JArr [q]) = Inr (JArr [r])"
  using assms by (simp add: builderQuiz_def gt_zero_def)

lemma transformUploadedQuiz_single:
  assumes "uploadedQuestion P q = Inr (Some r)"
  shows "transformUploadedQuiz P (JArr [q]) = Inr (JArr [r])"
  using assms by (simp add: transformUploadedQuiz_def)

lemma transformQuestion_true_false:
  assumes "read_prop q ''type'' = JStr (lit ''true_false'')"
      and "read_prop q ''text'' = JStr t"
      and "read_prop q ''answer'' = JStr a"
  shows "transformQuestion P q =
           Inr (Some (question_js \<lparr> q_question = t, q_type = TrueFalse,
                  q_options = [\<lparr> opt_text = lit ''True'', opt_isCorrect = (toLowerCase P a = lit ''true'') \<rparr>,
                               \<lparr> opt_text = lit ''False'', opt_isCorrect = (toLowerCase P a = lit ''false'') \<rparr>] \<rparr>))"
  using assms read_prop_defined [OF assms(1)]
  by (simp add: transformQuestion_def get_def question_js_def option_js_def Let_def ascii_simps)

lemma uploadedQuestion_true_false:
  assumes "read_prop q ''type'' = JStr (lit ''true_false'')"
      and "read_prop q ''text'' = JStr t"
      and "read_prop q ''answer'' = JStr a"
  shows "uploadedQuestion P q =
           Inr (Some (question_js \<lparr> q_question = t, q_type = TrueFalse,
                  q_options = [\<lparr> opt_text = lit ''True'', opt_isCorrect = (toLowerCase P (trim a) = lit ''true'') \<rparr>,
                               \<lparr> opt_text = lit ''False'', opt_isCorrect = (toLowerCase P (trim a) \<noteq> lit ''true'') \<rparr>] \<rparr>))"
  using assms read_prop_defined [OF assms(1)]
  by (simp add: uploadedQuestion_def question_js_def option_js_def Let_def toLowerCase_ascii
        is_ascii_def lower_unit_def)

text \<open>
  C10, as the code has it. Take a \<^verbatim>\<open>true_false\<close> question whose text is a string and
  whose answer is a string that, lower-cased, is neither \<^verbatim>\<open>true\<close> nor \<^verbatim>\<open>false\<close>.
  The builder parser gives a two-option question with no correct option. The upload
  transformation trims the answer before it lower-cases it: it marks \<^verbatim>\<open>True\<close>
  correct when the trimmed, lower-cased answer is \<^verbatim>\<open>true\<close>, and \<^verbatim>\<open>False\<close> correct
  otherwise. It always has one correct option, so the two parsers differ on every such
  question.
\<close>

theorem true_false_parsers_differ:
  assumes "read_prop q ''type'' = JStr (lit ''true_false'')"
      and "read_prop q ''text'' = JStr t"
      and "read_prop q ''answer'' = JStr a"
      and "toLowerCase P a \<noteq> lit ''true''"
      and "toLowerCase P a \<noteq> lit ''false''"
  shows "builderQuiz P (JArr [q]) =
           Inr (quiz_js [\<lparr> q_question = t, q_type = TrueFalse,
                  q_options = [\<lparr> opt_text = lit ''True'', opt_isCorrect = False \<rparr>,
                               \<lparr> opt_text = lit ''False'', opt_isCorrect = False \<rparr>] \<rparr>])
       \<and> transformUploadedQuiz P (JArr [q]) =
           Inr (quiz_js [\<lparr> q_question = t, q_type = TrueFalse,
                  q_options = [\<lparr> opt_text = lit ''True'', opt_isCorrect = (toLowerCase P (trim a) = lit ''true'') \<rparr>,
                               \<lparr> opt_text = lit ''False'', opt_isCorrect = (toLowerCase P (trim a) \<noteq> lit ''true'') \<rparr>] \<rparr>])
       \<and> builderQuiz P (JArr [q]) \<noteq> transformUploadedQuiz P (JArr [q])"
proof -
  have b: "builderQuiz P (JArr [q]) =
           Inr (quiz_js [\<lparr> q_question = t, q_type = TrueFalse,
                  q_options = [\<lparr> opt_text = lit ''True'', opt_isCorrect = False \<rparr>,
                               \<lparr> opt_text = lit ''False'', opt_isCorrect = False \<rparr>] \<rparr>])"
    using builderQuiz_single [OF transformQuestion_true_false [OF assms(1-3)]] assms(4,5)
    by (simp add: quiz_js_def)
  have u: "transformUploadedQuiz P (JArr [q]) =
           Inr (quiz_js [\<lparr> q_question = t, q_type = TrueFalse,
                  q_options = [\<lparr> opt_text = lit ''True'', opt_isCorrect = (toLowerCase P (trim a) = lit ''true'') \<rparr>,
                               \<lparr> opt_text = lit ''False'', opt_isCorrect = (toLowerCase P (trim a) \<noteq> lit ''true'') \<rparr>] \<rparr>])"
    using transformUploadedQuiz_single [OF uploadedQuestion_true_false [OF assms(1-3)]]
    by (simp add: quiz_js_def)
  have "builderQuiz P (JArr [q]) \<noteq> transformUploadedQuiz P (JArr [q])"
    unfolding b u by (auto simp: quiz_js_def question_js_def option_js_def)
  with b u show ?thesis by blast
qed

theorem true_false_parsers_differ_witness:
  "builderQuiz example_platform
     (JArr [JObj [(lit ''text'', JStr (lit ''Is Petra in Jordan?'')), (lit ''type'', JStr (lit ''true_false'')), (lit ''answer'', JStr (lit ''yes''))]]) =
     Inr (quiz_js [\<lparr> q_question = lit ''Is Petra in Jordan?'', q_type = TrueFalse,
            q_options = [\<lparr> opt_text = lit ''True'', opt_isCorrect = False \<rparr>,
                         \<lparr> opt_text = lit ''False'', opt_isCorrect = False \<rparr>] \<rparr>])
   \<and> transformUploadedQuiz example_platform
     (JArr [JObj [(lit ''text'', JStr (lit ''Is Petra in Jordan?'')), (lit ''type'', JStr (lit ''true_false'')), (lit ''answer'', JStr (lit ''yes''))]]) =
     Inr (quiz_js [\<lparr> q_question = lit ''Is Petra in Jordan?'', q_type = TrueFalse,
            q_options = [\<lparr> opt_text = lit ''True'', opt_isCorrect = False \<rparr>,
                         \<lparr> opt_text = lit ''False'', opt_isCorrect = True \<rparr>] \<rparr>])"
  using true_false_parsers_differ
    [of "JObj [(lit ''text'', JStr (lit ''Is Petra in Jordan?'')), (lit ''type'', JStr (lit ''true_false'')), (lit ''answer'', JStr (lit ''yes''))]"
        "lit ''Is Petra in Jordan?''" "lit ''yes''" example_platform]
  by (simp add: ascii_simps)

text \<open>
  C10 as stated fails: the answer \<^verbatim>\<open>" true "\<close>, lower-cased, is neither \<^verbatim>\<open>true\<close> nor
  \<^verbatim>\<open>false\<close>, and the upload transformation marks \<^verbatim>\<open>True\<close> correct, not \<^verbatim>\<open>False\<close>.
\<close>

theorem true_false_upload_trims_counterexample:
  "toLowerCase example_platform (lit '' true '') \<noteq> lit ''true'' \<and>
   toLowerCase example_platform (lit '' true '') \<noteq> lit ''false'' \<and>
   transformUploadedQuiz example_platform
     (JArr [JObj [(lit ''text'', JStr (lit ''Q'')), (lit ''type'', JStr (lit ''true_false'')), (lit ''answer'', JStr (lit '' true ''))]]) =
     Inr (quiz_js [\<lparr> q_question = lit ''Q'', q_type = TrueFalse,
            q_options = [\<lparr> opt_text = lit ''True'', opt_isCorrect = True \<rparr>,
                         \<lparr> opt_text = lit ''False'', opt_isCorrect = False \<rparr>] \<rparr>])"
  by (simp add: transformUploadedQuiz_def uploadedQuestion_def ascii_simps quiz_js_def
        question_js_def option_js_def)

lemma uploadQuiz_questions:
  assumes "truthy (read_prop item ''questions'')"
      and "transformUploadedQuiz P (read_prop item ''questions'') = Inr (JArr (r # rs))"
  shows "uploadQuiz P item = Inr (JArr (r # rs))"
  using assms by (simp add: uploadQuiz_def)

lemma uploadLandmark_quiz:
  assumes "uploadQuiz P item = Inr v"
  shows "case uploadLandmark P now item index of Inr (Some l) \<Rightarrow> quiz l = v | _ \<Rightarrow> True"
  using assms
  by (simp add: uploadLandmark_def split: jsvalue.split sum.split option.split)

text \<open>
  C6. An uploaded record whose \<^verbatim>\<open>questions\<close> are
  \<^verbatim>\<open>[{text:"Q",type:"true_false",answer:"True"}]\<close> gets exactly one question, with the
  options \<^verbatim>\<open>True\<close> (correct) and \<^verbatim>\<open>False\<close> (not correct): the quiz transformation
  gives it, and it is the quiz of the landmark whenever the record is accepted. The
  builder parser gives the same two options for the answers \<^verbatim>\<open>True\<close>, \<^verbatim>\<open>TRUE\<close> and
  \<^verbatim>\<open>true\<close>.
\<close>

theorem true_false_scenario:
  assumes "read_prop item ''questions'' =
             JArr [JObj [(lit ''text'', JStr (lit ''Q'')), (lit ''type'', JStr (lit ''true_false'')), (lit ''answer'', JStr (lit ''True''))]]"
      and "read_prop q ''type'' = JStr (lit ''true_false'')"
      and "read_prop q ''text'' = JStr t"
      and "read_prop q ''answer'' = JStr a"
      and "a = lit ''True'' \<or> a = lit ''TRUE'' \<or> a = lit ''true''"
  shows "transformUploadedQuiz P (read_prop item ''questions'') =
           Inr (quiz_js [\<lparr> q_question = lit ''Q'', q_type = TrueFalse,
                  q_options = [\<lparr> opt_text = lit ''True'', opt_isCorrect = True \<rparr>,
                               \<lparr> opt_text = lit ''False'', opt_isCorrect = False \<rparr>] \<rparr>])
       \<and> (case uploadLandmark P now item index of
             Inr (Some l) \<Rightarrow>
               quiz l = quiz_js [\<lparr> q_question = lit ''Q'', q_type = TrueFalse,
                          q_options = [\<lparr> opt_text = lit ''True'', opt_isCorrect = True \<rparr>,
                                       \<lparr> opt_text = lit ''False'', opt_isCorrect = False \<rparr>] \<rparr>]
           | _ \<Rightarrow> True)
       \<and> transformQuestion P q =
           Inr (Some (question_js \<lparr> q_question = t, q_type = TrueFalse,
                  q_options = [\<lparr> opt_text = lit ''True'', opt_isCorrect = True \<rparr>,
                               \<lparr> opt_text = lit ''False'', opt_isCorrect = False \<rparr>] \<rparr>))"
proof -
  let ?expected = "quiz_js [\<lparr> q_question = lit ''Q'', q_type = TrueFalse,
                  q_options = [\<lparr> opt_text = lit ''True'', opt_isCorrect = True \<rparr>,
                               \<lparr> opt_text = lit ''False'', opt_isCorrect = False \<rparr>] \<rparr>]"
  have u: "transformUploadedQuiz P (read_prop item ''questions'') = Inr ?expected"
    unfolding assms(1)
    by (simp add: transformUploadedQuiz_def uploadedQuestion_def quiz_js_def question_js_def
          option_js_def ascii_simps)
  have "uploadQuiz P item = Inr ?expected"
    using uploadQuiz_questions [of item P] u assms(1) by (simp add: quiz_js_def)
  from uploadLandmark_quiz [OF this]
  have l: "case uploadLandmark P now item index of Inr (Some l) \<Rightarrow> quiz l = ?expected | _ \<Rightarrow> True" .
  have b: "transformQuestion P q =
           Inr (Some (question_js \<lparr> q_question = t, q_type = TrueFalse,
                  q_options = [\<lparr> opt_text = lit ''True'', opt_isCorrect = True \<rparr>,
                               \<lparr> opt_text = lit ''False'', opt_isCorrect = False \<rparr>] \<rparr>))"
    using transformQuestion_true_false [OF assms(2-4)] assms(5) by (auto simp: ascii_simps)
  from u l b show ?thesis by blast
qed

theorem true_false_scenario_witness:
  "transformUploadedQuiz example_platform
     (JArr [JObj [(lit ''text'', JStr (lit ''Q'')), (lit ''type'', JStr (lit ''true_false'')), (lit ''answer'', JStr (lit ''True''))]]) =
     Inr (quiz_js [\<lparr> q_question = lit ''Q'', q_type = TrueFalse,
            q_options = [\<lparr> opt_text = lit ''True'', opt_isCorrect = True \<rparr>,
                         \<lparr> opt_text = lit ''False'', opt_isCorrect = False \<rparr>] \<rparr>])
   \<and> (case uploadLandmark example_platform 1700000000000
           (JObj [(lit ''name'', JStr (lit ''Petra'')),
                  (lit ''coordinates'', JArr [JNum (Fin 30), JNum (Fin 35)]),
                  (lit ''questions'',
                     JArr [JObj [(lit ''text'', JStr (lit ''Q'')), (lit ''type'', JStr (lit ''true_false'')),
                                 (lit ''answer'', JStr (lit ''True''))]])]) 0 of
         Inr (Some l) \<Rightarrow>
           quiz l = quiz_js [\<lparr> q_question = lit ''Q'', q_type = TrueFalse,
                      q_options = [\<lparr> opt_text = lit ''True'', opt_isCorrect = True \<rparr>,
                                   \<lparr> opt_text = lit ''False'', opt_isCorrect = False \<rparr>] \<rparr>]
       | _ \<Rightarrow> False)
   \<and> transformQuestion example_platform
       (JObj [(lit ''id'', JStr (lit ''q1'')), (lit ''text'', JStr (lit ''Q'')), (lit ''type'', JStr (lit ''true_false'')),
              (lit ''answer'', JStr (lit ''TRUE''))]) =
       Inr (Some (question_js \<lparr> q_question = lit ''Q'', q_type = TrueFalse,
              q_options = [\<lparr> opt_text = lit ''True'', opt_isCorrect = True \<rparr>,
                           \<lparr> opt_text = lit ''False'', opt_isCorrect = False \<rparr>] \<rparr>))"
proof -
  have accepted:
    "\<exists>l. uploadLandmark example_platform 1700000000000
           (JObj [(lit ''name'', JStr (lit ''Petra'')),
                  (lit ''coordinates'', JArr [JNum (Fin 30), JNum (Fin 35)]),
                  (lit ''questions'',
                     JArr [JObj [(lit ''text'', JStr (lit ''Q'')), (lit ''type'', JStr (lit ''true_false'')),
                                 (lit ''answer'', JStr (lit ''True''))]])]) 0 = Inr (Some l)"
    by (simp add: uploadLandmark_def or_else_def ascii_simps processCoords_def
          isFinite_def uploadQuiz_def transformUploadedQuiz_def uploadedQuestion_def)
  show ?thesis
    using accepted true_false_scenario
      [of "JObj [(lit ''name'', JStr (lit ''Petra'')),
                  (lit ''coordinates'', JArr [JNum (Fin 30), JNum (Fin 35)]),
                  (lit ''questions'',
                     JArr [JObj [(lit ''text'', JStr (lit ''Q'')), (lit ''type'', JStr (lit ''true_false'')),
                                 (lit ''answer'', JStr (lit ''True''))]])]"
          "JObj [(lit ''id'', JStr (lit ''q1'')), (lit ''text'', JStr (lit ''Q'')), (lit ''type'', JStr (lit ''true_false'')),
              (lit ''answer'', JStr (lit ''TRUE''))]"
          "lit ''Q''" "lit ''TRUE''" example_platform 1700000000000 0]
    by auto
qed

subsection \<open>The legacy parser on canonical quizzes\<close>

lemmas normalize_simps = set_prop_def built_def lowerFirst_def has_own_def ascii_simps

lemma normalizeKeys_option_js [simp]: "normalizeKeys P (option_js opt) = option_js opt"
  by (simp add: option_js_def normalize_simps)

lemma normalizeKeys_question_js [simp]: "normalizeKeys P (question_js q) = question_js q"
  by (simp add: question_js_def normalize_simps map_idI)

lemma normalizeKeys_quiz_js [simp]: "normalizeKeys P (quiz_js qs) = quiz_js qs"
  by (simp add: quiz_js_def map_idI)

lemma isValidQuizOption_option_js [simp]: "isValidQuizOption (option_js opt)"
  by (simp add: isValidQuizOption_def option_js_def)

lemma isValidQuizQuestion_question_js:
  "isValidQuizQuestion (question_js q) = (trim (q_question q) \<noteq> [])"
  by (cases "q_type q") (simp_all add: isValidQuizQuestion_def question_js_def list_all_iff)

text \<open>
  C9, as the code has it. A canonical quiz is a non-empty list of questions with the
  declared types of \<^verbatim>\<open>types.ts\<close>; if the text of every question is non-empty after
  \<^verbatim>\<open>trim\<close>, the legacy parser returns the quiz itself. The validator trims the text
  before it asks whether it is empty.
\<close>

theorem legacy_parser_canonical:
  assumes "qs \<noteq> []"
      and "\<forall>q \<in> set qs. trim (q_question q) \<noteq> []"
  shows "parseAndValidateQuiz P (quiz_js qs) = quiz_js qs"
proof -
  have valid: "isValidQuizQuestionArray (quiz_js qs)"
    using assms(2)
    by (simp add: isValidQuizQuestionArray_def quiz_js_def list_all_iff
          isValidQuizQuestion_question_js)
  have nonempty: "0 < length (elems (quiz_js qs))"
    using assms(1) by (simp add: quiz_js_def)
  have "truthy (quiz_js qs)" "typeof (quiz_js qs) \<noteq> ''string''"
    by (simp_all add: quiz_js_def)
  with valid nonempty show ?thesis
    by (simp add: parseAndValidateQuiz_def)
qed

theorem legacy_parser_canonical_witness:
  "parseAndValidateQuiz example_platform
     (quiz_js [\<lparr> q_question = lit ''What year was this built?'', q_type = MultipleChoice,
                 q_options = [\<lparr> opt_text = lit ''1990'', opt_isCorrect = False \<rparr>,
                              \<lparr> opt_text = lit ''2005'', opt_isCorrect = True \<rparr>] \<rparr>]) =
   quiz_js [\<lparr> q_question = lit ''What year was this built?'', q_type = MultipleChoice,
               q_options = [\<lparr> opt_text = lit ''1990'', opt_isCorrect = False \<rparr>,
                            \<lparr> opt_text = lit ''2005'', opt_isCorrect = True \<rparr>] \<rparr>]"
  using legacy_parser_canonical
    [of "[\<lparr> q_question = lit ''What year was this built?'', q_type = MultipleChoice,
                 q_options = [\<lparr> opt_text = lit ''1990'', opt_isCorrect = False \<rparr>,
                              \<lparr> opt_text = lit ''2005'', opt_isCorrect = True \<rparr>] \<rparr>]" example_platform]
  by (simp add: ascii_simps)

text \<open>
  C9 as stated fails: a question whose text is one space has a non-empty text, a type
  of the enumeration and a non-empty list of options, and the legacy parser discards
  the quiz.
\<close>

theorem legacy_parser_blank_text_counterexample:
  "q_question \<lparr> q_question = lit '' '', q_type = TrueFalse,
                 q_options = [\<lparr> opt_text = lit ''True'', opt_isCorrect = True \<rparr>,
                              \<lparr> opt_text = lit ''False'', opt_isCorrect = False \<rparr>] \<rparr> \<noteq> []
   \<and> parseAndValidateQuiz example_platform
       (quiz_js [\<lparr> q_question = lit '' '', q_type = TrueFalse,
                   q_options = [\<lparr> opt_text = lit ''True'', opt_isCorrect = True \<rparr>,
                                \<lparr> opt_text = lit ''False'', opt_isCorrect = False \<rparr>] \<rparr>]) = JUndefined
   \<and> quiz_js [\<lparr> q_question = lit '' '', q_type = TrueFalse,
                 q_options = [\<lparr> opt_text = lit ''True'', opt_isCorrect = True \<rparr>,
                              \<lparr> opt_text = lit ''False'', opt_isCorrect = False \<rparr>] \<rparr>] \<noteq> JUndefined"
  by (simp add: parseAndValidateQuiz_def quiz_js_def isValidQuizQuestionArray_def
        isValidQuizQuestion_question_js ascii_simps)

section \<open>Key normalizer: properties\<close>

lemma assign_fresh:
  assumes "k \<notin> fst ` set acc"
  shows "assign acc k v = acc @ [(k, v)]"
  using assms by (induction acc) auto

lemma foldl_set_prop_distinct:
  assumes "distinct (lit ''__proto__'' # map fst acc @ map (\<lambda>(key, v). g key) kvs)"
  shows "foldl (\<lambda>acc (key, v). set_prop acc (g key) (h v)) (acc, proto) kvs =
         (acc @ map (\<lambda>(key, v). (g key, h v)) kvs, proto)"
  using assms
proof (induction kvs arbitrary: acc)
  case Nil
  then show ?case by simp
next
  case (Cons kv kvs)
  obtain k v where kv: "kv = (k, v)" by (cases kv)
  from Cons.prems have fresh: "g k \<notin> fst ` set acc" and other: "g k \<noteq> lit ''__proto__''"
    by (auto simp: kv)
  have step: "set_prop (acc, proto) (g k) (h v) = (acc @ [(g k, h v)], proto)"
    using other by (simp add: set_prop_def assign_fresh [OF fresh])
  from Cons.prems
  have "distinct (lit ''__proto__'' # map fst (acc @ [(g k, h v)]) @ map (\<lambda>(key, v). g key) kvs)"
    by (auto simp: kv)
  from Cons.IH [OF this] show ?case
    by (simp add: kv step)
qed

lemma normalizeKeys_object:
  assumes "distinct (lit ''__proto__'' # map (\<lambda>(key, v). lowerFirst P key) kvs)"
      and "\<And>key v. (key, v) \<in> set kvs \<Longrightarrow> normalizeKeys P v = renameKeys P v"
  shows "built (foldl (\<lambda>acc (key, v). set_prop acc (lowerFirst P key) (normalizeKeys P v)) ([], None) kvs) =
         JObj (map (\<lambda>(key, v). (lowerFirst P key, renameKeys P v)) kvs)"
proof -
  have vals: "map (\<lambda>(key, v). (lowerFirst P key, normalizeKeys P v)) kvs =
              map (\<lambda>(key, v). (lowerFirst P key, renameKeys P v)) kvs"
    using assms(2) by auto
  have "distinct (lit ''__proto__'' # map fst ([] :: (jsstring \<times> jsvalue) list) @
          map (\<lambda>(key, v). lowerFirst P key) kvs)"
    using assms(1) by simp
  from foldl_set_prop_distinct [OF this, of "normalizeKeys P" None] vals show ?thesis
    by (simp add: built_def)
qed

text \<open>
  C8, as the code has it. On a value in which no object has two keys that become
  equal when their first character is lower-cased, nor a key that becomes
  \<^verbatim>\<open>__proto__\<close>, the key normalizer returns the value the specification describes:
  the same structure, every key with its first character lower-cased, through arrays
  and nested objects, and everything that is not an array or an object unchanged.
\<close>

theorem normalizeKeys_renames:
  assumes "no_clash P x"
  shows "normalizeKeys P x = renameKeys P x"
  using assms
proof (induction P x rule: normalizeKeys.induct)
  case (1 P xs)
  then show ?case by (simp add: list_all_iff)
next
  case (2 P kvs)
  have "normalizeKeys P v = renameKeys P v" if "(key, v) \<in> set kvs" for key v
    using 2 that by (auto simp: list_all_iff)
  with "2.prems" show ?case
    by (simp add: normalizeKeys_object)
next
  case (3 P kvs p)
  have "normalizeKeys P v = renameKeys P v" if "(key, v) \<in> set kvs" for key v
    using 3 that by (auto simp: list_all_iff)
  with "3.prems" show ?case
    by (simp add: normalizeKeys_object)
qed simp_all

theorem normalizeKeys_renames_witness:
  "normalizeKeys example_platform
     (JArr [JObj [(lit ''Question'', JStr (lit ''Q'')), (lit ''Type'', JStr (lit ''true-false'')),
                  (lit ''options'',
                     JArr [JObj [(lit ''Text'', JStr (lit ''True'')), (lit ''IsCorrect'', JBool True)]]),
                  (lit ''when'', JDate (Fin 0)), (lit ''note'', JNull)]]) =
   JArr [JObj [(lit ''question'', JStr (lit ''Q'')), (lit ''type'', JStr (lit ''true-false'')),
               (lit ''options'',
                  JArr [JObj [(lit ''text'', JStr (lit ''True'')), (lit ''isCorrect'', JBool True)]]),
               (lit ''when'', JDate (Fin 0)), (lit ''note'', JNull)]]"
  using normalizeKeys_renames
    [of example_platform
        "JArr [JObj [(lit ''Question'', JStr (lit ''Q'')), (lit ''Type'', JStr (lit ''true-false'')),
                  (lit ''options'',
                     JArr [JObj [(lit ''Text'', JStr (lit ''True'')), (lit ''IsCorrect'', JBool True)]]),
                  (lit ''when'', JDate (Fin 0)), (lit ''note'', JNull)]]"]
  by (simp add: lowerFirst_def ascii_simps)

text \<open>
  C8 as stated fails: of two keys that differ in the case of the first character only,
  one property survives, with the value of the later key.
\<close>

theorem normalizeKeys_clash_counterexample:
  "normalizeKeys example_platform
     (JObj [(lit ''Name'', JStr (lit ''Petra'')), (lit ''name'', JStr (lit ''Jerash''))]) =
   JObj [(lit ''name'', JStr (lit ''Jerash''))]"
  by (simp add: normalize_simps)

text \<open>
  A key \<^verbatim>\<open>__proto__\<close> is lost as well: the assignment replaces the prototype of the
  result and creates no property.
\<close>

lemma normalizeKeys_proto_key:
  "normalizeKeys P (JObj [(lit ''__proto__'', JObj [(lit ''a'', JNum (Fin 1))]), (lit ''b'', JNum (Fin 2))]) =
   JProto [(lit ''b'', JNum (Fin 2))] (JObj [(lit ''a'', JNum (Fin 1))])"
  by (simp add: normalize_simps)

section \<open>Quiz submission: properties\<close>

text \<open>
  C5, as the code has it. With the three session parameters present,
  \<^verbatim>\<open>submitQuizResults\<close> sends one request: a POST to
  \<^verbatim>\<open>{base_url}/organization/results/artifact/{artifact_id}/submission/\<close> with bearer
  authorization and the JSON text of
  \<^verbatim>\<open>{ artifacts: parseInt(artifact_id), content: JSON.stringify(summary), status: "submitted" }\<close>
  as its body. It returns \<^verbatim>\<open>true\<close> when the response is ok and \<^verbatim>\<open>false\<close> on every
  other response and when the request fails. Without the three parameters it sends
  nothing and returns \<^verbatim>\<open>false\<close>. It never throws.
\<close>

theorem submitQuizResults_request:
  "(tok \<noteq> [] \<and> artifact \<noteq> [] \<and> base \<noteq> [] \<longrightarrow>
      submitQuizResults P \<lparr> token = Some tok, artifactId = Some artifact, baseUrl = Some base \<rparr> fetch summary =
        (fetch \<lparr> url = base @ lit ''/organization/results/artifact/'' @ artifact @ lit ''/submission/'',
                 http_method = lit ''POST'',
                 headers = [(lit ''Accept'', lit ''application/json, text/plain, */*''),
                            (lit ''Authorization'', lit ''Bearer '' @ tok),
                            (lit ''Content-Type'', lit ''application/json'')],
                 body = JSON_stringify P
                          (JObj [(lit ''artifacts'', JNum (parseInt P artifact)),
                                 (lit ''content'', JStr (JSON_stringify P summary)),
                                 (lit ''status'', JStr (lit ''submitted''))]) \<rparr> = Response True,
         [\<lparr> url = base @ lit ''/organization/results/artifact/'' @ artifact @ lit ''/submission/'',
            http_method = lit ''POST'',
            headers = [(lit ''Accept'', lit ''application/json, text/plain, */*''),
                       (lit ''Authorization'', lit ''Bearer '' @ tok),
                       (lit ''Content-Type'', lit ''application/json'')],
            body = JSON_stringify P
                     (JObj [(lit ''artifacts'', JNum (parseInt P artifact)),
                            (lit ''content'', JStr (JSON_stringify P summary)),
                            (lit ''status'', JStr (lit ''submitted''))]) \<rparr>]))
   \<and> (\<not> hasRequiredParams params \<longrightarrow> submitQuizResults P params fetch summary = (False, []))"
proof -
  have missing: "submitQuizResults P params fetch summary = (False, [])"
    if "\<not> hasRequiredParams params"
    using that
    by (auto simp: hasRequiredParams_def present_def submitQuizResults_def split: option.splits)
  show ?thesis
    using missing
    by (auto simp: submitQuizResults_def Let_def split: response.splits)
qed

theorem submitQuizResults_request_witness:
  "submitQuizResults example_platform
     \<lparr> token = Some (lit ''secret''), artifactId = Some (lit ''42''), baseUrl = Some (lit ''https://host.example'') \<rparr>
     (\<lambda>r. Response False) (JObj []) =
     (False,
      [\<lparr> url = lit ''https://host.example/organization/results/artifact/42/submission/'',
         http_method = lit ''POST'',
         headers = [(lit ''Accept'', lit ''application/json, text/plain, */*''),
                    (lit ''Authorization'', lit ''Bearer secret''),
                    (lit ''Content-Type'', lit ''application/json'')],
         body = JSON_stringify example_platform
                  (JObj [(lit ''artifacts'', JNum (Fin 42)), (lit ''content'', JStr (lit ''{}'')),
                         (lit ''status'', JStr (lit ''submitted''))]) \<rparr>])
   \<and> submitQuizResults example_platform
       \<lparr> token = None, artifactId = Some (lit ''42''), baseUrl = Some (lit ''https://host.example'') \<rparr>
       (\<lambda>r. Response False) (JObj []) = (False, [])"
  using submitQuizResults_request
    [of "lit ''secret''" "lit ''42''" "lit ''https://host.example''" example_platform "\<lambda>r. Response False" "JObj []"
        "\<lparr> token = None, artifactId = Some (lit ''42''), baseUrl = Some (lit ''https://host.example'') \<rparr>"]
  by (simp add: hasRequiredParams_def present_def example_platform_def)

text \<open>
  C5 as stated fails: the path of the request has no \<^verbatim>\<open>submission\<close> segment before
  the artifact id.
\<close>

theorem submitQuizResults_url_counterexample:
  "map url (snd (submitQuizResults example_platform
      \<lparr> token = Some (lit ''secret''), artifactId = Some (lit ''42''), baseUrl = Some (lit ''https://host.example'') \<rparr>
      (\<lambda>r. Response True) (JObj []))) =
     [lit ''https://host.example/organization/results/artifact/42/submission/'']
   \<and> lit ''https://host.example/organization/results/artifact/42/submission/'' \<noteq>
     lit ''https://host.example/organization/results/artifact/submission/42/submission/''"
  by (simp add: submitQuizResults_def)

section \<open>Navigation: properties\<close>

lemma js_rem_mod:
  assumes "0 \<le> a" and "0 < b"
  shows "js_rem a b = a mod b"
proof (cases "a = 0")
  case True
  then show ?thesis by (simp add: js_rem_def smod_int_alt_def)
next
  case False
  with assms have "0 < a" by simp
  with assms(2) show ?thesis by (simp add: js_rem_def smod_int_alt_def)
qed

lemma activeIndex_setTimeout [simp]: "activeIndex (setTimeout f d s) = activeIndex s"
  by (simp add: setTimeout_def)

lemma sidebarIndex_setTimeout [simp]: "sidebarIndex (setTimeout f d s) = sidebarIndex s"
  by (simp add: setTimeout_def)

lemma timeouts_setTimeout [simp]: "timeouts (setTimeout f d s) = enqueue (d, f) (timeouts s)"
  by (simp add: setTimeout_def)

lemma isTransitioning_setTimeout [simp]: "isTransitioning (setTimeout f d s) = isTransitioning s"
  by (simp add: setTimeout_def)

lemma transition_effect:
  assumes "timeouts s = []"
  shows "activeIndex (transition i len s) = js_rem (i + 1) (int len)"
    and "sidebarIndex (transition i len s) = sidebarIndex s"
    and "isTransitioning (transition i len s)"
    and "sidebarIndex (fire_next (transition i len s)) = js_rem (i + 1) (int len)"
    and "activeIndex (fire_next (fire_next (transition i len s))) = js_rem (i + 1) (int len)"
    and "sidebarIndex (fire_next (fire_next (transition i len s))) = js_rem (i + 1) (int len)"
    and "\<not> isTransitioning (fire_next (fire_next (transition i len s)))"
    and "timeouts (fire_next (fire_next (transition i len s))) = []"
  using assms by (simp_all add: transition_def Let_def fire_next_def setTimeout_def)

lemma handlePrev_effect:
  assumes "\<not> isTransitioning s" and "landmarks s \<noteq> []" and "timeouts s = []"
  shows "activeIndex (handlePrev s) =
           js_rem (sidebarIndex s - 1 + int (length (landmarks s))) (int (length (landmarks s)))"
    and "sidebarIndex (handlePrev s) = sidebarIndex s"
    and "activeIndex (fire_next (fire_next (handlePrev s))) =
           js_rem (sidebarIndex s - 1 + int (length (landmarks s))) (int (length (landmarks s)))"
    and "sidebarIndex (fire_next (fire_next (handlePrev s))) =
           js_rem (sidebarIndex s - 1 + int (length (landmarks s))) (int (length (landmarks s)))"
    and "\<not> isTransitioning (fire_next (fire_next (handlePrev s)))"
    and "timeouts (fire_next (fire_next (handlePrev s))) = []"
  using assms by (simp_all add: handlePrev_def Let_def fire_next_def setTimeout_def)

text \<open>
  C7. In a tour of \<open>len\<close> landmarks, viewing index \<open>i\<close> with no transition in flight:
  \<^verbatim>\<open>Next\<close>, when the landmark is not gated, moves the active index to
  \<open>(i + 1) mod len\<close>, and \<^verbatim>\<open>Previous\<close> moves it to \<open>(i - 1 + len) mod len\<close>; when the
  two timeouts of the transition have fired, the sidebar shows the same index and
  navigation is open again. So \<^verbatim>\<open>Next\<close> from the last index goes to 0 and
  \<^verbatim>\<open>Previous\<close> from 0 goes to the last index.
\<close>

theorem navigation_wraps:
  assumes "\<not> isTransitioning s"
      and "timeouts s = []"
      and "0 \<le> sidebarIndex s"
      and "sidebarIndex s < int (length (landmarks s))"
  shows "(\<not> gated (at_index (landmarks s) (sidebarIndex s)) \<longrightarrow>
            activeIndex (handleNext s) = (sidebarIndex s + 1) mod int (length (landmarks s)) \<and>
            activeIndex (fire_next (fire_next (handleNext s))) =
              (sidebarIndex s + 1) mod int (length (landmarks s)) \<and>
            sidebarIndex (fire_next (fire_next (handleNext s))) =
              (sidebarIndex s + 1) mod int (length (landmarks s)) \<and>
            \<not> isTransitioning (fire_next (fire_next (handleNext s))) \<and>
            (sidebarIndex s = int (length (landmarks s)) - 1 \<longrightarrow> activeIndex (handleNext s) = 0))
       \<and> activeIndex (handlePrev s) =
           (sidebarIndex s - 1 + int (length (landmarks s))) mod int (length (landmarks s))
       \<and> activeIndex (fire_next (fire_next (handlePrev s))) =
           (sidebarIndex s - 1 + int (length (landmarks s))) mod int (length (landmarks s))
       \<and> sidebarIndex (fire_next (fire_next (handlePrev s))) =
           (sidebarIndex s - 1 + int (length (landmarks s))) mod int (length (landmarks s))
       \<and> \<not> isTransitioning (fire_next (fire_next (handlePrev s)))
       \<and> (sidebarIndex s = 0 \<longrightarrow> activeIndex (handlePrev s) = int (length (landmarks s)) - 1)"
proof -
  let ?len = "int (length (landmarks s))"
  let ?i = "sidebarIndex s"
  from assms(3,4) have len: "0 < ?len" and ne: "landmarks s \<noteq> []" by auto
  have next_rem: "js_rem (?i + 1) ?len = (?i + 1) mod ?len"
    using assms(3) len by (intro js_rem_mod) auto
  have prev_rem: "js_rem (?i - 1 + ?len) ?len = (?i - 1 + ?len) mod ?len"
  proof (rule js_rem_mod)
    from ne have "1 \<le> ?len" by (cases "landmarks s") auto
    with assms(3) show "0 \<le> ?i - 1 + ?len" by linarith
  qed (rule len)
  have next_eq: "handleNext s = transition ?i (length (landmarks s)) s"
    if "\<not> gated (at_index (landmarks s) ?i)"
    using that assms(1) ne by (simp add: handleNext_def Let_def)
  have last: "(?i + 1) mod ?len = 0" if "?i = ?len - 1"
    using that by simp
  have first: "(?i - 1 + ?len) mod ?len = ?len - 1" if "?i = 0"
  proof -
    have small: "(?len - 1) mod ?len = ?len - 1"
      using len by (intro mod_pos_pos_trivial) auto
    from that have "?i - 1 + ?len = ?len - 1" by simp
    with small show ?thesis by (simp only:)
  qed
  show ?thesis
    using next_eq transition_effect [OF assms(2), of ?i "length (landmarks s)"]
      handlePrev_effect [OF assms(1) ne assms(2)] next_rem prev_rem last first
    by auto
qed

theorem navigation_wraps_witness:
  "activeIndex (handleNext (viewing (butlast example_tour) 1)) = 0
   \<and> sidebarIndex (fire_next (fire_next (handleNext (viewing (butlast example_tour) 1)))) = 0
   \<and> \<not> isTransitioning (fire_next (fire_next (handleNext (viewing (butlast example_tour) 1))))
   \<and> activeIndex (handlePrev (viewing example_tour 0)) = 2
   \<and> sidebarIndex (fire_next (fire_next (handlePrev (viewing example_tour 0)))) = 2"
proof -
  have ungated: "\<not> gated (at_index (landmarks (viewing (butlast example_tour) 1))
                     (sidebarIndex (viewing (butlast example_tour) 1)))"
    by (simp add: viewing_def example_tour_def example_landmark_def at_index_def gated_def)
  show ?thesis
    using ungated navigation_wraps [of "viewing (butlast example_tour) 1"]
      navigation_wraps [of "viewing example_tour 0"]
    by (simp add: viewing_def example_tour_def)
qed

lemma handleNext_transitioning: "isTransitioning s \<Longrightarrow> handleNext s = s"
  by (simp add: handleNext_def)

lemma handlePrev_transitioning: "isTransitioning s \<Longrightarrow> handlePrev s = s"
  by (simp add: handlePrev_def)

lemma handleSelectLandmark_transitioning: "isTransitioning s \<Longrightarrow> handleSelectLandmark ident s = s"
  by (simp add: handleSelectLandmark_def)

lemma activeIndex_transition: "activeIndex (transition i len s) = js_rem (i + 1) (int len)"
  by (simp add: transition_def Let_def)

lemma at_index_SomeD:
  assumes "at_index xs i = Some x"
  shows "0 \<le> i \<and> i < int (length xs) \<and> xs \<noteq> []"
  using assms by (auto simp: at_index_def split: if_splits)

lemma gated_quiz:
  assumes "\<not> strict_eq (id' l) (JNum (Fin 0))" and "quiz l = JArr (q # qs)"
      and "truthy (block_navigation l)"
  shows "gated (Some l)"
  using assms by (simp add: gated_def)

text \<open>
  C2, as the code has it. Viewing a landmark other than the intro that has a non-empty
  quiz and blocks navigation, with no transition in flight, \<^verbatim>\<open>Next\<close> only opens the
  quiz gate: the active index and the sidebar index stay, \<^verbatim>\<open>Next\<close> issued again
  changes nothing, and the completion of the quiz moves the active index to the next
  landmark. While a transition is in flight, \<^verbatim>\<open>Next\<close>, \<^verbatim>\<open>Previous\<close> and the jump to
  a landmark leave the state as it is. The handlers of \<^verbatim>\<open>Previous\<close> and of the jump
  do not look at the quiz gate.
\<close>

theorem quiz_gate_and_transition_guard:
  "(\<not> isTransitioning s \<and> at_index (landmarks s) (sidebarIndex s) = Some l \<and>
    \<not> strict_eq (id' l) (JNum (Fin 0)) \<and> quiz l = JArr (q # qs) \<and> truthy (block_navigation l) \<longrightarrow>
      handleNext s =
        s\<lparr>quizModalInfo :=
            \<lparr> isOpen = True, questions = quiz l,
              onComplete = CloseAndTransition (sidebarIndex s) (length (landmarks s)) \<rparr>\<rparr> \<and>
      activeIndex (handleNext s) = activeIndex s \<and>
      sidebarIndex (handleNext s) = sidebarIndex s \<and>
      handleNext (handleNext s) = handleNext s \<and>
      activeIndex (quizComplete (handleNext s)) = (sidebarIndex s + 1) mod int (length (landmarks s)))
   \<and> (isTransitioning s \<longrightarrow>
        handleNext s = s \<and> handlePrev s = s \<and> handleSelectLandmark ident s = s)"
proof -
  have gate:
    "handleNext s =
        s\<lparr>quizModalInfo :=
            \<lparr> isOpen = True, questions = quiz l,
              onComplete = CloseAndTransition (sidebarIndex s) (length (landmarks s)) \<rparr>\<rparr> \<and>
      activeIndex (handleNext s) = activeIndex s \<and>
      sidebarIndex (handleNext s) = sidebarIndex s \<and>
      handleNext (handleNext s) = handleNext s \<and>
      activeIndex (quizComplete (handleNext s)) = (sidebarIndex s + 1) mod int (length (landmarks s))"
    if idle: "\<not> isTransitioning s"
      and cur: "at_index (landmarks s) (sidebarIndex s) = Some l"
      and l: "\<not> strict_eq (id' l) (JNum (Fin 0))" "quiz l = JArr (q # qs)" "truthy (block_navigation l)"
  proof -
    from at_index_SomeD [OF cur]
    have range: "0 \<le> sidebarIndex s" "sidebarIndex s < int (length (landmarks s))"
      and ne: "landmarks s \<noteq> []" by auto
    have g: "gated (Some l)" using l by (rule gated_quiz)
    have n: "handleNext s =
        s\<lparr>quizModalInfo :=
            \<lparr> isOpen = True, questions = quiz l,
              onComplete = CloseAndTransition (sidebarIndex s) (length (landmarks s)) \<rparr>\<rparr>"
      using idle ne cur g by (simp add: handleNext_def Let_def)
    have again: "handleNext (handleNext s) = handleNext s"
      unfolding n using idle ne cur g by (simp add: handleNext_def Let_def)
    have "activeIndex (quizComplete (handleNext s)) =
            js_rem (sidebarIndex s + 1) (int (length (landmarks s)))"
      unfolding n by (simp add: quizComplete_def activeIndex_transition)
    also have "\<dots> = (sidebarIndex s + 1) mod int (length (landmarks s))"
      using range by (intro js_rem_mod) auto
    finally show ?thesis using n again by simp
  qed
  show ?thesis
    using gate handleNext_transitioning handlePrev_transitioning handleSelectLandmark_transitioning
    by blast
qed

theorem quiz_gate_and_transition_guard_witness:
  "activeIndex (handleNext (viewing example_tour 2)) = 2
   \<and> sidebarIndex (handleNext (viewing example_tour 2)) = 2
   \<and> isOpen (quizModalInfo (handleNext (viewing example_tour 2)))
   \<and> handleNext (handleNext (viewing example_tour 2)) = handleNext (viewing example_tour 2)
   \<and> activeIndex (quizComplete (handleNext (viewing example_tour 2))) = 0
   \<and> handleNext (handleNext (viewing example_tour 1)) = handleNext (viewing example_tour 1)
   \<and> handlePrev (handleNext (viewing example_tour 1)) = handleNext (viewing example_tour 1)
   \<and> handleSelectLandmark (JNum (Fin 2)) (handleNext (viewing example_tour 1)) =
       handleNext (viewing example_tour 1)"
proof -
  let ?s = "viewing example_tour 2"
  let ?l = "example_landmark 2 ''L2'' example_quiz True"
  let ?q = "question_js \<lparr> q_question = lit ''Q'', q_type = TrueFalse,
                 q_options = [\<lparr> opt_text = lit ''True'', opt_isCorrect = True \<rparr>,
                              \<lparr> opt_text = lit ''False'', opt_isCorrect = False \<rparr>] \<rparr>"
  have idle: "\<not> isTransitioning ?s"
    by (simp add: viewing_def)
  have cur: "at_index (landmarks ?s) (sidebarIndex ?s) = Some ?l"
    by (simp add: viewing_def example_tour_def at_index_def)
  have l1: "\<not> strict_eq (id' ?l) (JNum (Fin 0))"
    by (simp add: example_landmark_def)
  have l2: "quiz ?l = JArr (?q # [])"
    by (simp add: example_landmark_def example_quiz_def quiz_js_def)
  have l3: "truthy (block_navigation ?l)"
    by (simp add: example_landmark_def)
  have gate:
    "handleNext ?s =
        ?s\<lparr>quizModalInfo :=
            \<lparr> isOpen = True, questions = quiz ?l,
              onComplete = CloseAndTransition (sidebarIndex ?s) (length (landmarks ?s)) \<rparr>\<rparr> \<and>
      activeIndex (handleNext ?s) = activeIndex ?s \<and>
      sidebarIndex (handleNext ?s) = sidebarIndex ?s \<and>
      handleNext (handleNext ?s) = handleNext ?s \<and>
      activeIndex (quizComplete (handleNext ?s)) = (sidebarIndex ?s + 1) mod int (length (landmarks ?s))"
    using quiz_gate_and_transition_guard [of ?s ?l ?q "[]", THEN conjunct1] idle cur l1 l2 l3
    by blast
  have opened: "isOpen (quizModalInfo (handleNext ?s))"
    using gate by simp
  have vals: "activeIndex ?s = 2" "sidebarIndex ?s = 2" "length (landmarks ?s) = 3"
    by (simp_all add: viewing_def example_tour_def)
  have busy: "isTransitioning (handleNext (viewing example_tour 1))"
    by (simp add: handleNext_def viewing_def example_tour_def example_landmark_def at_index_def
          gated_def transition_def Let_def)
  have guard:
    "handleNext (handleNext (viewing example_tour 1)) = handleNext (viewing example_tour 1) \<and>
     handlePrev (handleNext (viewing example_tour 1)) = handleNext (viewing example_tour 1) \<and>
     handleSelectLandmark (JNum (Fin 2)) (handleNext (viewing example_tour 1)) =
       handleNext (viewing example_tour 1)"
    using quiz_gate_and_transition_guard
        [of "handleNext (viewing example_tour 1)" ?l ?q "[]" "JNum (Fin 2)", THEN conjunct2] busy
    by blast
  have g: "activeIndex (handleNext ?s) = activeIndex ?s"
    "sidebarIndex (handleNext ?s) = sidebarIndex ?s"
    "handleNext (handleNext ?s) = handleNext ?s"
    "activeIndex (quizComplete (handleNext ?s)) = (sidebarIndex ?s + 1) mod int (length (landmarks ?s))"
    using gate by blast+
  have wrap: "(sidebarIndex ?s + 1) mod int (length (landmarks ?s)) = 0"
    by (simp add: vals)
  have "activeIndex (handleNext ?s) = 2" "sidebarIndex (handleNext ?s) = 2"
    "activeIndex (quizComplete (handleNext ?s)) = 0"
    using g(1) vals(1) g(2) vals(2) g(4) wrap by (simp_all only:)
  with opened guard g(3) show ?thesis by blast
qed

text \<open>
  C2 as stated fails: with the quiz gate open and no transition in flight,
  \<^verbatim>\<open>Previous\<close> moves the active index.
\<close>

theorem previous_passes_quiz_gate_counterexample:
  "isOpen (quizModalInfo (handleNext (viewing example_tour 2)))
   \<and> \<not> isTransitioning (handleNext (viewing example_tour 2))
   \<and> activeIndex (handleNext (viewing example_tour 2)) = 2
   \<and> activeIndex (handlePrev (handleNext (viewing example_tour 2))) = 1"
  by (simp add: handleNext_def handlePrev_def viewing_def example_tour_def example_landmark_def
        example_quiz_def quiz_js_def at_index_def gated_def Let_def js_rem_def smod_int_alt_def)

text \<open>
  Neither \<^verbatim>\<open>Previous\<close> nor the jump reads the quiz gate: whatever the quiz modal holds,
  each does what it does without it.
\<close>

lemma handlePrev_ignores_quiz_gate:
  "handlePrev (s\<lparr>quizModalInfo := m\<rparr>) = (handlePrev s)\<lparr>quizModalInfo := m\<rparr>"
  by (simp add: handlePrev_def setTimeout_def Let_def)

lemma handleSelectLandmark_ignores_quiz_gate:
  "handleSelectLandmark ident (s\<lparr>quizModalInfo := m\<rparr>) =
   (handleSelectLandmark ident s)\<lparr>quizModalInfo := m\<rparr>"
  by (simp add: handleSelectLandmark_def setTimeout_def Let_def)

section \<open>Coercers: properties\<close>

lemma sequence_length:
  assumes "sequence rs = Inr vs"
  shows "length vs = length rs"
  using assms
  by (induction rs arbitrary: vs) (auto split: sum.splits)

lemma sequence_all_rejected:
  assumes "\<forall>r \<in> set rs. r = Inr None \<or> (\<exists>e. r = Inl e)"
  shows "(\<exists>e. sequence rs = Inl e) \<or> (\<exists>vs. sequence rs = Inr vs \<and> somes vs = [])"
  using assms
proof (induction rs)
  case Nil
  then show ?case by simp
next
  case (Cons r rs)
  then show ?case by (auto split: sum.splits)
qed

lemma length_indexed [simp]: "length (indexed xs) = length xs"
  by (simp add: indexed_def)

lemma indexed_fst:
  assumes "(x, i) \<in> set (indexed xs)"
  shows "x \<in> set xs"
  using assms by (auto simp: indexed_def dest: set_zip_leftD)

lemma two_elems:
  assumes "length xs = 2"
  shows "xs = [xs ! 0, xs ! 1]"
proof -
  from assms obtain a b where "xs = [a, b]"
    by (cases xs; cases "tl xs") auto
  then show ?thesis by simp
qed

lemma processCoords_unusable:
  assumes "\<not> coords_usable P raw"
  shows "processCoords P raw = Inr None \<or> (\<exists>e. processCoords P raw = Inl e)"
proof (cases "isArray raw \<and> length (elems raw) = 2")
  case False
  then show ?thesis by (auto simp: processCoords_def)
next
  case True
  then obtain xs where raw: "raw = JArr xs" and len: "length xs = 2"
    by (cases raw) auto
  from two_elems [OF len] obtain c0 c1 where xs: "xs = [c0, c1]" by blast
  show ?thesis
    using assms unfolding raw xs
    by (auto simp: processCoords_def coords_usable_def converts_finite_def split: sum.splits)
qed

lemma processCoords_rejects:
  assumes "entries_convert P raw" and "\<not> coords_usable P raw"
  shows "processCoords P raw = Inr None"
proof (cases "isArray raw \<and> length (elems raw) = 2")
  case False
  then show ?thesis by (auto simp: processCoords_def)
next
  case True
  then obtain xs where raw: "raw = JArr xs" and len: "length xs = 2"
    by (cases raw) auto
  from two_elems [OF len] obtain c0 c1 where xs: "xs = [c0, c1]" by blast
  show ?thesis
    using assms unfolding raw xs
    by (auto simp: processCoords_def coords_usable_def converts_finite_def entries_convert_def
          split: sum.splits)
qed

lemma processCoords_usable:
  assumes "coords_usable P raw"
  shows "\<exists>c. processCoords P raw = Inr (Some c)"
proof -
  from assms obtain c0 c1 where raw: "raw = JArr [c0, c1]"
    by (auto simp: coords_usable_def split: jsvalue.splits list.splits)
  show ?thesis
    using assms unfolding raw
    by (auto simp: processCoords_def coords_usable_def converts_finite_def split: sum.splits)
qed

lemma uploadLandmark_no_name:
  assumes "\<not> name_usable (upload_name item)"
  shows "uploadLandmark P now item index = Inr None"
  using assms
  by (auto simp: uploadLandmark_def name_usable_def upload_name_def split: jsvalue.splits)

lemma uploadLandmark_no_coords:
  assumes "entries_convert P (upload_coords item)" and "\<not> coords_usable P (upload_coords item)"
  shows "uploadLandmark P now item index = Inr None"
  using processCoords_rejects [OF assms]
  by (auto simp: uploadLandmark_def upload_coords_def split: jsvalue.splits)

lemma uploadLandmark_invalid:
  assumes "\<not> upload_valid P item"
  shows "uploadLandmark P now item index = Inr None \<or> (\<exists>e. uploadLandmark P now item index = Inl e)"
proof (cases "typeof item = ''object'' \<and> item \<noteq> JNull")
  case False
  then show ?thesis by (auto simp: uploadLandmark_def)
next
  case obj: True
  show ?thesis
  proof (cases "name_usable (upload_name item)")
    case False
    then show ?thesis by (simp add: uploadLandmark_no_name)
  next
    case True
    with obj assms have "\<not> coords_usable P (upload_coords item)"
      by (simp add: upload_valid_def)
    from processCoords_unusable [OF this] show ?thesis
      by (auto simp: uploadLandmark_def upload_coords_def split: jsvalue.splits)
  qed
qed

lemma persistedLandmark_rejects:
  assumes "entries_convert P (read_prop item ''coords'')"
      and "\<not> name_usable (read_prop item ''name'') \<or> \<not> coords_usable P (read_prop item ''coords'')"
  shows "persistedLandmark P now item = Inr None"
proof (cases "coords_usable P (read_prop item ''coords'')")
  case False
  from processCoords_rejects [OF assms(1) this] show ?thesis
    by (simp add: persistedLandmark_def)
next
  case True
  with assms(2) have "\<not> name_usable (read_prop item ''name'')" by simp
  with processCoords_usable [OF True] show ?thesis
    by (auto simp: persistedLandmark_def name_usable_def split: jsvalue.splits)
qed

lemma datasetLandmark_rejects:
  assumes "item \<noteq> JUndefined" and "item \<noteq> JNull"
      and "entries_convert P (read_prop item ''coordinates'')"
      and "\<not> coords_usable P (read_prop item ''coordinates'')"
  shows "datasetLandmark P item index = Inr None"
  using processCoords_rejects [OF assms(3,4)] assms(1,2)
  by (simp add: datasetLandmark_def get_def)

lemma transformBuilderDataToLandmarks_keeps_all:
  "case transformBuilderDataToLandmarks P builderData of
     Inr ls \<Rightarrow> length ls = length builderData
   | Inl e \<Rightarrow> True"
  by (auto simp: transformBuilderDataToLandmarks_def split: sum.splits dest: sequence_length)

lemma builderLandmark_without_questions:
  assumes "location \<noteq> JUndefined" and "location \<noteq> JNull"
      and "\<not> truthy (read_prop location ''questions'')"
  shows "builderLandmark P location index =
           Inr \<lparr> id' = JNum (Fin (of_nat index + 1)),
                 name = read_prop location ''title'',
                 title = read_prop location ''title'',
                 description = read_prop location ''description'',
                 aliases = JArr [read_prop location ''country''],
                 imageUrl = or_else (read_prop location ''image'')
                              (JStr (lit ''https://via.placeholder.com/800x600?text=No+Image'')),
                 coords = read_prop location ''coordinates'',
                 iconType = JStr (lit ''monument''),
                 videoUrl = read_prop location ''video'',
                 audioUrl = read_prop location ''audio'',
                 quiz = JUndefined,
                 block_navigation = read_prop location ''block_navigation'' \<rparr>"
  using assms by (simp add: builderLandmark_def get_def builderQuiz_def)

lemma sequence_all_Inr:
  assumes "\<forall>r \<in> set rs. \<exists>v. r = Inr v"
  shows "\<exists>vs. sequence rs = Inr vs"
  using assms
proof (induction rs)
  case Nil
  then show ?case by simp
next
  case (Cons r rs)
  then obtain v vs where "r = Inr v" "sequence rs = Inr vs" by auto
  then show ?case by simp
qed

lemma transformBuilderDataToLandmarks_returns:
  assumes "\<forall>location \<in> set builderData.
             location \<noteq> JUndefined \<and> location \<noteq> JNull \<and> \<not> truthy (read_prop location ''questions'')"
  shows "\<exists>ls. transformBuilderDataToLandmarks P builderData = Inr ls \<and> length ls = length builderData"
proof -
  let ?rs = "map (\<lambda>(location, index). builderLandmark P location index) (indexed builderData)"
  have "\<forall>r \<in> set ?rs. \<exists>v. r = Inr v"
  proof
    fix r assume "r \<in> set ?rs"
    then obtain location index where mem: "(location, index) \<in> set (indexed builderData)"
      and r: "r = builderLandmark P location index"
      by auto
    from indexed_fst [OF mem] assms
    have "location \<noteq> JUndefined" "location \<noteq> JNull" "\<not> truthy (read_prop location ''questions'')"
      by auto
    from builderLandmark_without_questions [OF this] r show "\<exists>v. r = Inr v"
      by simp
  qed
  from sequence_all_Inr [OF this] obtain ls where ls: "sequence ?rs = Inr ls" by blast
  from sequence_length [OF ls] ls show ?thesis
    by (simp add: transformBuilderDataToLandmarks_def)
qed

lemma somes_count:
  assumes "sequence (map (\<lambda>(x, i). f x i) (zip xs js)) = Inr rs"
      and "length js = length xs"
      and "\<And>x i r. x \<in> set xs \<Longrightarrow> f x i = Inr r \<Longrightarrow> (r \<noteq> None) = valid x"
  shows "length (somes rs) = length (filter valid xs)"
  using assms
proof (induction xs arbitrary: js rs)
  case Nil
  then show ?case by simp
next
  case (Cons x xs)
  from Cons.prems(2) obtain j js' where js: "js = j # js'" and len: "length js' = length xs"
    by (cases js) auto
  from Cons.prems(1) obtain r rs' where r: "f x j = Inr r"
    and rest: "sequence (map (\<lambda>(x, i). f x i) (zip xs js')) = Inr rs'"
    and rs: "rs = r # rs'"
    by (auto simp: js split: sum.splits)
  have ih: "length (somes rs') = length (filter valid xs)"
    using Cons.IH [OF rest len] Cons.prems(3) by simp
  have "(r \<noteq> None) = valid x"
    using Cons.prems(3) [of x j r] r by simp
  with ih show ?case
    by (cases r) (simp_all add: rs)
qed

lemma uploadLandmark_valid:
  assumes "upload_valid P item"
  shows "uploadLandmark P now item index \<noteq> Inr None"
proof -
  from assms obtain nm where nm: "upload_name item = JStr nm" "trim nm \<noteq> []"
    by (auto simp: upload_valid_def name_usable_def split: jsvalue.splits)
  from assms obtain c where c: "processCoords P (upload_coords item) = Inr (Some c)"
    using processCoords_usable [of P "upload_coords item"] by (auto simp: upload_valid_def)
  from assms have obj: "typeof item = ''object''" "item \<noteq> JNull"
    by (simp_all add: upload_valid_def)
  show ?thesis
    using nm c obj
    by (simp add: uploadLandmark_def upload_name_def upload_coords_def split: sum.splits)
qed

lemma uploadLandmarks_count:
  "case uploadLandmarks P now items of
     Inr ls \<Rightarrow> length ls = length (filter (upload_valid P) items)
   | Inl e \<Rightarrow> True"
proof (cases "uploadLandmarks P now items")
  case (Inl e)
  then show ?thesis by simp
next
  case (Inr ls)
  then obtain rs where seq: "sequence (map (\<lambda>(item, index). uploadLandmark P now item index)
                                (zip items [0 ..< length items])) = Inr rs"
    and ls: "ls = somes rs"
    by (auto simp: uploadLandmarks_def indexed_def split: sum.splits)
  have "length (somes rs) = length (filter (upload_valid P) items)"
  proof (rule somes_count [OF seq])
    show "length [0 ..< length items] = length items" by simp
  next
    fix x i r
    assume "uploadLandmark P now x i = Inr r"
    then show "(r \<noteq> None) = upload_valid P x"
      using uploadLandmark_invalid [of P x now i] uploadLandmark_valid [of P x now i]
      by auto
  qed
  with Inr ls show ?thesis by simp
qed

lemma persistedLandmark_invalid:
  assumes "\<not> persisted_valid P item"
  shows "persistedLandmark P now item = Inr None \<or> (\<exists>e. persistedLandmark P now item = Inl e)"
proof (cases "typeof item = ''object'' \<and> item \<noteq> JNull")
  case False
  then show ?thesis by (auto simp: persistedLandmark_def)
next
  case obj: True
  show ?thesis
  proof (cases "coords_usable P (read_prop item ''coords'')")
    case False
    from processCoords_unusable [OF this] show ?thesis
      by (auto simp: persistedLandmark_def)
  next
    case True
    with obj assms have "\<not> name_usable (read_prop item ''name'')"
      by (simp add: persisted_valid_def)
    with processCoords_usable [OF True] show ?thesis
      by (auto simp: persistedLandmark_def name_usable_def split: jsvalue.splits)
  qed
qed

lemma persistedLandmark_valid:
  assumes "persisted_valid P item"
  shows "persistedLandmark P now item \<noteq> Inr None"
proof -
  from assms obtain nm where nm: "read_prop item ''name'' = JStr nm" "trim nm \<noteq> []"
    by (auto simp: persisted_valid_def name_usable_def split: jsvalue.splits)
  from assms obtain c where c: "processCoords P (read_prop item ''coords'') = Inr (Some c)"
    using processCoords_usable [of P "read_prop item ''coords''"] by (auto simp: persisted_valid_def)
  from assms have obj: "typeof item = ''object''" "item \<noteq> JNull"
    by (simp_all add: persisted_valid_def)
  show ?thesis
    using nm c obj
    by (simp add: persistedLandmark_def split: sum.splits)
qed

lemma zip_const_index:
  "map (\<lambda>(x, i). f x) (zip xs [0 ..< length xs]) = map f xs"
  by (simp add: map_equality_iff)

lemma persistedLandmarks_count:
  "case persistedLandmarks P now items of
     Inr ls \<Rightarrow> length ls = length (filter (persisted_valid P) items)
   | Inl e \<Rightarrow> True"
proof (cases "persistedLandmarks P now items")
  case (Inl e)
  then show ?thesis by simp
next
  case (Inr ls)
  then obtain rs where "sequence (map (persistedLandmark P now) items) = Inr rs"
    and ls: "ls = somes rs"
    by (auto simp: persistedLandmarks_def split: sum.splits)
  then have seq: "sequence (map (\<lambda>(item, index). persistedLandmark P now item)
                    (zip items [0 ..< length items])) = Inr rs"
    by (simp add: zip_const_index)
  have "length (somes rs) = length (filter (persisted_valid P) items)"
  proof (rule somes_count [OF seq])
    show "length [0 ..< length items] = length items" by simp
  next
    fix x and i :: nat and r
    assume "persistedLandmark P now x = Inr r"
    then show "(r \<noteq> None) = persisted_valid P x"
      using persistedLandmark_invalid [of P x now] persistedLandmark_valid [of P x now]
      by auto
  qed
  with Inr ls show ?thesis by simp
qed

lemma datasetLandmark_kept_iff:
  assumes "datasetLandmark P item index = Inr r"
  shows "(r \<noteq> None) = dataset_valid P item"
proof (cases "coords_usable P (read_prop item ''coordinates'')")
  case True
  from processCoords_usable [OF this] assms True show ?thesis
    by (auto simp: datasetLandmark_def dataset_valid_def get_def Let_def
          split: if_splits sum.splits jsvalue.splits)
next
  case False
  from processCoords_unusable [OF this] assms False show ?thesis
    by (auto simp: datasetLandmark_def dataset_valid_def get_def Let_def
          split: if_splits sum.splits jsvalue.splits)
qed

lemma datasetLandmarks_count:
  "case datasetLandmarks P items of
     Inr ls \<Rightarrow> length ls = length (filter (dataset_valid P) items)
   | Inl e \<Rightarrow> True"
proof (cases "datasetLandmarks P items")
  case (Inl e)
  then show ?thesis by simp
next
  case (Inr ls)
  then obtain rs where seq: "sequence (map (\<lambda>(item, index). datasetLandmark P item index)
                                (zip items [0 ..< length items])) = Inr rs"
    and ls: "ls = somes rs"
    by (auto simp: datasetLandmarks_def indexed_def split: sum.splits)
  have "length (somes rs) = length (filter (dataset_valid P) items)"
  proof (rule somes_count [OF seq])
    show "length [0 ..< length items] = length items" by simp
  next
    fix x i r
    assume "datasetLandmark P x i = Inr r"
    then show "(r \<noteq> None) = dataset_valid P x"
      by (rule datasetLandmark_kept_iff)
  qed
  with Inr ls show ?thesis by simp
qed

text \<open>
  C1, as the code has it. The upload coercer and the persisted-overlay coercer return
  \<^verbatim>\<open>null\<close>, without throwing, for every record that has no usable name or whose
  coordinates are missing or not finite; so does the dataset coercer for every row
  object whose coordinates are missing or not finite. (Where coordinates are read,
  their entries are taken to convert to numbers at all.) The filter removes the
  \<^verbatim>\<open>null\<close>s: whenever one of these three coercers returns, its output list has one
  landmark for each valid record and none for the others. The remote-artifact coercer
  checks nothing: a record that is an object without questions gives a landmark
  whatever its title and its coordinates are, a list of such records gives a landmark
  for each, and whenever the coercer returns, every record has given a landmark.
\<close>

theorem invalid_records_are_skipped:
  "(\<not> name_usable (upload_name item) \<longrightarrow> uploadLandmark P now item index = Inr None)
   \<and> (entries_convert P (upload_coords item) \<and> \<not> coords_usable P (upload_coords item) \<longrightarrow>
        uploadLandmark P now item index = Inr None)
   \<and> (entries_convert P (read_prop item ''coords'') \<and>
        (\<not> name_usable (read_prop item ''name'') \<or> \<not> coords_usable P (read_prop item ''coords'')) \<longrightarrow>
        persistedLandmark P now item = Inr None)
   \<and> (item \<noteq> JUndefined \<and> item \<noteq> JNull \<and> entries_convert P (read_prop item ''coordinates'') \<and>
        \<not> coords_usable P (read_prop item ''coordinates'') \<longrightarrow>
        datasetLandmark P item index = Inr None)
   \<and> (case uploadLandmarks P now items of
         Inr ls \<Rightarrow> length ls = length (filter (upload_valid P) items)
       | Inl e \<Rightarrow> True)
   \<and> (case persistedLandmarks P now items of
         Inr ls \<Rightarrow> length ls = length (filter (persisted_valid P) items)
       | Inl e \<Rightarrow> True)
   \<and> (case datasetLandmarks P items of
         Inr ls \<Rightarrow> length ls = length (filter (dataset_valid P) items)
       | Inl e \<Rightarrow> True)
   \<and> (item \<noteq> JUndefined \<and> item \<noteq> JNull \<and> \<not> truthy (read_prop item ''questions'') \<longrightarrow>
        builderLandmark P item index =
          Inr \<lparr> id' = JNum (Fin (of_nat index + 1)),
                name = read_prop item ''title'',
                title = read_prop item ''title'',
                description = read_prop item ''description'',
                aliases = JArr [read_prop item ''country''],
                imageUrl = or_else (read_prop item ''image'')
                             (JStr (lit ''https://via.placeholder.com/800x600?text=No+Image'')),
                coords = read_prop item ''coordinates'',
                iconType = JStr (lit ''monument''),
                videoUrl = read_prop item ''video'',
                audioUrl = read_prop item ''audio'',
                quiz = JUndefined,
                block_navigation = read_prop item ''block_navigation'' \<rparr>)
   \<and> ((\<forall>location \<in> set builderData.
          location \<noteq> JUndefined \<and> location \<noteq> JNull \<and> \<not> truthy (read_prop location ''questions'')) \<longrightarrow>
        (\<exists>ls. transformBuilderDataToLandmarks P builderData = Inr ls \<and>
              length ls = length builderData))
   \<and> (case transformBuilderDataToLandmarks P builderData of
         Inr ls \<Rightarrow> length ls = length builderData
       | Inl e \<Rightarrow> True)"
  using uploadLandmark_no_name [of item P now index]
    uploadLandmark_no_coords [of P item now index]
    persistedLandmark_rejects [of P item now]
    datasetLandmark_rejects [of item P index]
    uploadLandmarks_count [where P = P and now = now and items = items]
    persistedLandmarks_count [where P = P and now = now and items = items]
    datasetLandmarks_count [where P = P and items = items]
    builderLandmark_without_questions [of item P index]
    transformBuilderDataToLandmarks_returns [of builderData P]
    transformBuilderDataToLandmarks_keeps_all [where P = P and builderData = builderData]
  by blast

theorem invalid_records_are_skipped_witness:
  "uploadLandmark example_platform 1700000000000
     (JObj [(lit ''coordinates'', JArr [JNum (Fin 30), JNum (Fin 35)])]) 0 = Inr None
   \<and> uploadLandmark example_platform 1700000000000
       (JObj [(lit ''name'', JStr (lit ''Petra'')), (lit ''coordinates'', JArr [JNum (Fin 30), JNull])]) 0 = Inr None
   \<and> persistedLandmark example_platform 1700000000000
       (JObj [(lit ''name'', JStr (lit '' '')), (lit ''coords'', JArr [JNum (Fin 30), JNum (Fin 35)])]) = Inr None
   \<and> datasetLandmark example_platform
       (JObj [(lit ''city'', JStr (lit ''Petra'')), (lit ''coordinates'', JArr [JNum (Fin (3033 / 100)), JNull])]) 0 =
       Inr None
   \<and> (case datasetLandmarks example_platform
              [JObj [(lit ''city'', JStr (lit ''Petra'')),
                     (lit ''coordinates'', JArr [JNum (Fin (3033 / 100)), JNull])],
               JObj [(lit ''city'', JStr (lit ''Petra'')),
                     (lit ''coordinates'', JArr [JStr (lit ''30.33''), JStr (lit ''35.44'')])]] of
         Inr ls \<Rightarrow> map coords ls = [JArr [JNum (Fin (3033 / 100)), JNum (Fin (3544 / 100))]]
       | Inl e \<Rightarrow> False)
   \<and> (case transformBuilderDataToLandmarks example_platform [JObj []] of
         Inr ls \<Rightarrow> map name ls = [JUndefined] \<and> map coords ls = [JUndefined]
       | Inl e \<Rightarrow> False)"
proof -
  have u1: "uploadLandmark example_platform 1700000000000
     (JObj [(lit ''coordinates'', JArr [JNum (Fin 30), JNum (Fin 35)])]) 0 = Inr None"
    using invalid_records_are_skipped
      [of "JObj [(lit ''coordinates'', JArr [JNum (Fin 30), JNum (Fin 35)])]" example_platform
          1700000000000 0, THEN conjunct1]
    by (simp add: name_usable_def upload_name_def or_else_def)
  have u2: "uploadLandmark example_platform 1700000000000
       (JObj [(lit ''name'', JStr (lit ''Petra'')), (lit ''coordinates'', JArr [JNum (Fin 30), JNull])]) 0 = Inr None"
    using invalid_records_are_skipped
      [of "JObj [(lit ''name'', JStr (lit ''Petra'')), (lit ''coordinates'', JArr [JNum (Fin 30), JNull])]"
          example_platform 1700000000000 0, THEN conjunct2, THEN conjunct1]
    by (simp add: entries_convert_def coords_usable_def upload_coords_def or_else_def Number_def)
  have o1: "persistedLandmark example_platform 1700000000000
       (JObj [(lit ''name'', JStr (lit '' '')), (lit ''coords'', JArr [JNum (Fin 30), JNum (Fin 35)])]) = Inr None"
    using invalid_records_are_skipped
      [of "JObj [(lit ''name'', JStr (lit '' '')), (lit ''coords'', JArr [JNum (Fin 30), JNum (Fin 35)])]"
          example_platform 1700000000000 0, THEN conjunct2, THEN conjunct2, THEN conjunct1]
    by (simp add: entries_convert_def name_usable_def ascii_simps)
  have d1: "datasetLandmark example_platform
       (JObj [(lit ''city'', JStr (lit ''Petra'')), (lit ''coordinates'', JArr [JNum (Fin (3033 / 100)), JNull])]) 0 =
       Inr None"
    using invalid_records_are_skipped
      [of "JObj [(lit ''city'', JStr (lit ''Petra'')), (lit ''coordinates'', JArr [JNum (Fin (3033 / 100)), JNull])]"
          example_platform 1700000000000 0,
          THEN conjunct2, THEN conjunct2, THEN conjunct2, THEN conjunct1]
    by (simp add: entries_convert_def coords_usable_def Number_def)
  have d2: "case datasetLandmarks example_platform
              [JObj [(lit ''city'', JStr (lit ''Petra'')),
                     (lit ''coordinates'', JArr [JNum (Fin (3033 / 100)), JNull])],
               JObj [(lit ''city'', JStr (lit ''Petra'')),
                     (lit ''coordinates'', JArr [JStr (lit ''30.33''), JStr (lit ''35.44'')])]] of
         Inr ls \<Rightarrow> map coords ls = [JArr [JNum (Fin (3033 / 100)), JNum (Fin (3544 / 100))]]
       | Inl e \<Rightarrow> False"
    by (simp add: datasetLandmarks_def indexed_def upt_rec datasetLandmark_def get_def
          processCoords_def Number_def isFinite_def example_platform_def or_else_def
          parseAndValidateQuiz_def)
  have r0: "\<forall>location \<in> set [JObj []].
              location \<noteq> JUndefined \<and> location \<noteq> JNull \<and> \<not> truthy (read_prop location ''questions'')"
    by simp
  from invalid_records_are_skipped
      [of "JObj []" example_platform 1700000000000 0 "[]" "[JObj []]",
       THEN conjunct2, THEN conjunct2, THEN conjunct2, THEN conjunct2, THEN conjunct2,
       THEN conjunct2, THEN conjunct2, THEN conjunct2, THEN conjunct1] r0
  obtain ls where ls: "transformBuilderDataToLandmarks example_platform [JObj []] = Inr ls"
    by blast
  have "transformBuilderDataToLandmarks example_platform [JObj []] =
          Inr [\<lparr> id' = JNum (Fin 1), name = JUndefined, title = JUndefined,
                 description = JUndefined, aliases = JArr [JUndefined],
                 imageUrl = JStr (lit ''https://via.placeholder.com/800x600?text=No+Image''),
                 coords = JUndefined, iconType = JStr (lit ''monument''), videoUrl = JUndefined,
                 audioUrl = JUndefined, quiz = JUndefined, block_navigation = JUndefined \<rparr>]"
    by (simp add: transformBuilderDataToLandmarks_def indexed_def builderLandmark_def get_def
          builderQuiz_def or_else_def)
  with ls have r: "case transformBuilderDataToLandmarks example_platform [JObj []] of
         Inr ls \<Rightarrow> map name ls = [JUndefined] \<and> map coords ls = [JUndefined]
       | Inl e \<Rightarrow> False"
    by auto
  from u1 u2 o1 d1 d2 r show ?thesis by blast
qed

text \<open>
  C1 as stated fails: the remote-artifact coercer keeps a record that has neither a
  title nor coordinates.
\<close>

theorem remote_record_kept_counterexample:
  "transformBuilderDataToLandmarks example_platform [JObj [(lit ''description'', JStr (lit ''nowhere''))]] =
     Inr [\<lparr> id' = JNum (Fin 1), name = JUndefined, title = JUndefined,
            description = JStr (lit ''nowhere''), aliases = JArr [JUndefined],
            imageUrl = JStr (lit ''https://via.placeholder.com/800x600?text=No+Image''),
            coords = JUndefined, iconType = JStr (lit ''monument''), videoUrl = JUndefined,
            audioUrl = JUndefined, quiz = JUndefined, block_navigation = JUndefined \<rparr>]"
  by (simp add: transformBuilderDataToLandmarks_def indexed_def builderLandmark_def get_def
        builderQuiz_def or_else_def)

text \<open>
  A dataset row with coordinates and no \<^verbatim>\<open>city\<close> is not skipped either: the callback
  throws, and \<^verbatim>\<open>loadData\<close> falls back to the built-in tour.
\<close>

lemma dataset_row_without_city_throws:
  "datasetLandmarks example_platform
     [JObj [(lit ''coordinates'', JArr [JNum (Fin 30), JNum (Fin 35)])]] = Inl TypeError"
  by (simp add: datasetLandmarks_def indexed_def datasetLandmark_def get_def processCoords_def
        isFinite_def Number_def)

section \<open>Upload: properties\<close>

lemma uploadLandmarks_all_invalid:
  assumes "\<forall>item \<in> set items. \<not> upload_valid P item"
  shows "(\<exists>e. uploadLandmarks P now items = Inl e) \<or> uploadLandmarks P now items = Inr []"
proof -
  let ?rs = "map (\<lambda>(item, index). uploadLandmark P now item index) (indexed items)"
  have "\<forall>r \<in> set ?rs. r = Inr None \<or> (\<exists>e. r = Inl e)"
  proof
    fix r assume "r \<in> set ?rs"
    then obtain item index where mem: "(item, index) \<in> set (indexed items)"
      and r: "r = uploadLandmark P now item index"
      by auto
    from indexed_fst [OF mem] assms have "\<not> upload_valid P item" by blast
    from uploadLandmark_invalid [OF this] r show "r = Inr None \<or> (\<exists>e. r = Inl e)"
      by simp
  qed
  from sequence_all_rejected [OF this] show ?thesis
    by (auto simp: uploadLandmarks_def)
qed

text \<open>
  C3. When the uploaded file parses to an array in which no record has both a usable
  name and usable coordinates, the upload is rejected: an alert is shown and the
  state, with its landmarks and its two indices, is the state before the upload.
\<close>

theorem upload_of_invalid_records_rejected:
  assumes "JSON_parse P file_text = Some (JArr items)"
      and "\<forall>item \<in> set items. \<not> upload_valid P item"
  shows "\<exists>a. handleFileChange P INTRO_LANDMARK now file_text s = (s, Some a)"
  using assms(1) uploadLandmarks_all_invalid [OF assms(2), of now]
  by (auto simp: handleFileChange_def)

theorem upload_of_invalid_records_rejected_witness:
  "handleFileChange example_platform (example_landmark 0 ''Intro'' JUndefined False) 1700000000000
     (lit ''[{\"name\":\"Petra\"},7]'') (viewing example_tour 2) =
   (viewing example_tour 2, Some NoValidLandmarks)"
proof -
  have parsed: "JSON_parse example_platform (lit ''[{\"name\":\"Petra\"},7]'') =
                  Some (JArr [JObj [(lit ''name'', JStr (lit ''Petra''))], JNum (Fin 7)])"
    by (simp add: example_platform_def)
  have invalid: "\<forall>item \<in> set [JObj [(lit ''name'', JStr (lit ''Petra''))], JNum (Fin 7)].
                   \<not> upload_valid example_platform item"
    by (simp add: upload_valid_def coords_usable_def upload_coords_def or_else_def)
  have no_throw: "uploadLandmarks example_platform 1700000000000
                    [JObj [(lit ''name'', JStr (lit ''Petra''))], JNum (Fin 7)] = Inr []"
    by (simp add: uploadLandmarks_def indexed_def uploadLandmark_def or_else_def ascii_simps
          processCoords_def upt_rec)
  from upload_of_invalid_records_rejected [OF parsed invalid]
  obtain a where "handleFileChange example_platform (example_landmark 0 ''Intro'' JUndefined False)
      1700000000000 (lit ''[{\"name\":\"Petra\"},7]'') (viewing example_tour 2) = (viewing example_tour 2, Some a)"
    by blast
  moreover have "snd (handleFileChange example_platform (example_landmark 0 ''Intro'' JUndefined False)
      1700000000000 (lit ''[{\"name\":\"Petra\"},7]'') (viewing example_tour 2)) = Some NoValidLandmarks"
    using parsed no_throw by (simp add: handleFileChange_def)
  ultimately show ?thesis by simp
qed

section \<open>The intro landmark heads every tour\<close>

lemma headed_by_Cons [simp]: "headed_by intro (intro # ls)"
  by (simp add: headed_by_def)

lemma headed_by_append:
  assumes "headed_by intro xs"
  shows "headed_by intro (xs @ ys)"
  using assms by (cases xs) (simp_all add: headed_by_def)

lemma headed_by_at_index:
  assumes "headed_by intro tour"
  shows "at_index tour 0 = Some intro"
  using assms by (cases tour) (simp_all add: headed_by_def at_index_def)

lemma remoteLandmarks_headed:
  assumes "remoteLandmarks P intro env = Some tour"
  shows "headed_by intro tour"
  using assms
  by (auto simp: remoteLandmarks_def
        split: if_splits fetch_outcome.splits bool.splits sum.splits jsvalue.splits option.splits)

lemma baseLandmarksOf_headed:
  assumes "headed_by intro fallback"
  shows "headed_by intro (baseLandmarksOf P intro fallback env)"
  using assms
  by (auto simp: baseLandmarksOf_def split: dataset_source.splits sum.splits)

lemma combinedLandmarksOf_headed:
  assumes "headed_by intro base"
  shows "headed_by intro (combinedLandmarksOf P env base)"
  using assms
  by (auto simp: combinedLandmarksOf_def headed_by_append
        split: storage.splits option.splits sum.splits)

lemma loadData_headed:
  assumes "headed_by intro fallback"
  shows "headed_by intro (fst (loadData P intro fallback env))"
    and "headed_by intro (snd (loadData P intro fallback env))"
  using remoteLandmarks_headed [of P intro env]
    baseLandmarksOf_headed [OF assms, of P env]
    combinedLandmarksOf_headed [OF baseLandmarksOf_headed [OF assms], of P env P env]
  by (auto simp: loadData_def Let_def split: option.splits)

lemma landmarks_focusJustAdded [simp]: "landmarks (focusJustAdded s) = landmarks s"
  by (simp add: focusJustAdded_def Let_def)

lemma handleFileChange_headed:
  assumes "headed_by intro (landmarks s)"
  shows "headed_by intro (landmarks (fst (handleFileChange P intro now file_text s)))"
  using assms
  by (auto simp: handleFileChange_def split: option.splits sum.splits)

lemma handleSaveLandmark_headed:
  assumes "headed_by intro (landmarks s)"
  shows "headed_by intro (landmarks (handleSaveLandmark now newLandmarkData s))"
  using assms
  by (auto simp: handleSaveLandmark_def Let_def headed_by_append)

lemma intro_not_gated:
  assumes "is_intro intro"
  shows "\<not> gated (Some intro)"
  using assms by (simp add: is_intro_def gated_def)

text \<open>
  C4. Let the intro landmark have id 0, no quiz and no gating, and let the built-in
  tour start with it. Then the tour that \<^verbatim>\<open>loadData\<close> sets, from whichever source,
  starts with the intro landmark, and so does its base tour; an upload and the
  saving of a custom landmark keep the intro landmark at index 0 of a tour that has
  it there; and the landmark at index 0 of such a tour has id 0, has no quiz and does
  not gate \<^verbatim>\<open>Next\<close>.
\<close>

theorem intro_heads_every_tour:
  assumes "is_intro INTRO_LANDMARK"
      and "headed_by INTRO_LANDMARK FALLBACK_LANDMARKS"
  shows "headed_by INTRO_LANDMARK (fst (loadData P INTRO_LANDMARK FALLBACK_LANDMARKS env))
       \<and> headed_by INTRO_LANDMARK (snd (loadData P INTRO_LANDMARK FALLBACK_LANDMARKS env))
       \<and> (headed_by INTRO_LANDMARK (landmarks s) \<longrightarrow>
            headed_by INTRO_LANDMARK (landmarks (fst (handleFileChange P INTRO_LANDMARK now file_text s))) \<and>
            headed_by INTRO_LANDMARK (landmarks (handleSaveLandmark now newLandmarkData s)))
       \<and> (headed_by INTRO_LANDMARK tour \<longrightarrow>
            at_index tour 0 = Some INTRO_LANDMARK \<and>
            id' INTRO_LANDMARK = JNum (Fin 0) \<and> quiz INTRO_LANDMARK = JUndefined \<and>
            \<not> gated (at_index tour 0))"
proof -
  have zero: "at_index tour 0 = Some INTRO_LANDMARK \<and>
            id' INTRO_LANDMARK = JNum (Fin 0) \<and> quiz INTRO_LANDMARK = JUndefined \<and>
            \<not> gated (at_index tour 0)"
    if "headed_by INTRO_LANDMARK tour"
    using headed_by_at_index [OF that] intro_not_gated [OF assms(1)] assms(1)
    by (simp add: is_intro_def)
  show ?thesis
    using loadData_headed [OF assms(2), of P env]
      handleFileChange_headed [of INTRO_LANDMARK s P now file_text]
      handleSaveLandmark_headed [of INTRO_LANDMARK s now newLandmarkData]
      zero
    by blast
qed

theorem intro_heads_every_tour_witness:
  "headed_by (example_landmark 0 ''Intro'' JUndefined False)
     (fst (loadData example_platform (example_landmark 0 ''Intro'' JUndefined False) example_tour
        \<lparr> env_params = \<lparr> token = None, artifactId = None, baseUrl = None \<rparr>,
          artifact_fetch = FetchRejected,
          dataset = DatasetRows [JObj [(lit ''city'', JStr (lit ''Petra'')),
                                       (lit ''coordinates'', JArr [JStr (lit ''30.33''), JStr (lit ''35.44'')])]],
          stored_locations = StorageItem None,
          clock = 1700000000000 \<rparr>))
   \<and> headed_by (example_landmark 0 ''Intro'' JUndefined False)
       (landmarks (fst (handleFileChange example_platform (example_landmark 0 ''Intro'' JUndefined False)
          1700000000000 (lit ''[{\"name\":\"Petra\",\"coordinates\":[30,35]}]'') (viewing example_tour 2))))
   \<and> headed_by (example_landmark 0 ''Intro'' JUndefined False)
       (landmarks (handleSaveLandmark 1700000000000 (example_landmark 0 ''Cafe'' JUndefined False)
          ((viewing example_tour 2)\<lparr>modalCoords := JArr [JNum (Fin 31), JNum (Fin 36)]\<rparr>)))
   \<and> at_index example_tour 0 = Some (example_landmark 0 ''Intro'' JUndefined False)
   \<and> \<not> gated (at_index example_tour 0)"
proof -
  let ?intro = "example_landmark 0 ''Intro'' JUndefined False"
  have i: "is_intro ?intro"
    by (simp add: is_intro_def example_landmark_def)
  have f: "headed_by ?intro example_tour"
    by (simp add: example_tour_def)
  have s: "headed_by ?intro (landmarks (viewing example_tour 2))"
    "headed_by ?intro
       (landmarks ((viewing example_tour 2)\<lparr>modalCoords := JArr [JNum (Fin 31), JNum (Fin 36)]\<rparr>))"
    by (simp_all add: viewing_def example_tour_def)
  show ?thesis
    using intro_heads_every_tour [OF i f, of example_platform _ "viewing example_tour 2"
            1700000000000 "(lit ''[{\"name\":\"Petra\",\"coordinates\":[30,35]}]'')" _ example_tour]
      intro_heads_every_tour [OF i f, of example_platform _
            "(viewing example_tour 2)\<lparr>modalCoords := JArr [JNum (Fin 31), JNum (Fin 36)]\<rparr>"
            1700000000000 _ "example_landmark 0 ''Cafe'' JUndefined False" example_tour]
      s f
    by blast
qed

end
